theory Spec2Isabelle
  imports Complex_Main "HOL-Library.Sublist" "HOL-Library.Log_Nat"
begin

section \<open>Data model of the admin backend\<close>

text \<open>
  An Admin document as \<^verbatim>\<open>adminSchema\<close> (models/Admin.js) declares it. The field
  \<open>password\<close> holds the stored bcrypt hash; it is optional here because a query
  with the projection \<^verbatim>\<open>.select('-password')\<close> returns the document without it.
\<close>

record admin =
  admin_id :: string
  firstName :: string
  lastName :: string
  email :: string
  password :: "string option"
  role :: string
  isActive :: bool
  permissions :: "string list"
  lastLogin :: "nat option"
  profileImage :: "string option"
  phone :: "string option"
  department :: "string option"

text \<open>
  The part of an express request the middleware reads and writes:
  \<^verbatim>\<open>req.headers.authorization\<close> and \<^verbatim>\<open>req.admin\<close>.
\<close>

record request =
  authorization :: "string option"
  req_admin :: "admin option"

text \<open>
  What a middleware does with a request: it either sends
  \<^verbatim>\<open>res.status(s).json({success: false, message: m})\<close> and stops, or calls
  \<^verbatim>\<open>next()\<close> with the (possibly updated) request.
\<close>

datatype outcome = Sent nat string | Next request


subsection \<open>JavaScript values and library calls\<close>

text \<open>
  A thrown JavaScript error, kept as its \<^verbatim>\<open>error.name\<close>: the catch blocks of the
  middleware dispatch on nothing else.
\<close>

datatype js_error = Thrown (error_name: string)

text \<open>\<^verbatim>\<open>s.split(c)\<close> for a one-character separator, and \<^verbatim>\<open>xs[i]\<close>, which is
  \<^verbatim>\<open>undefined\<close> (here \<open>None\<close>) outside the array.\<close>

fun split_on :: "char \<Rightarrow> string \<Rightarrow> string list" where
  "split_on c [] = [[]]"
| "split_on c (x # xs) =
     (if x = c then [] # split_on c xs
      else (case split_on c xs of [] \<Rightarrow> [[x]] | w # ws \<Rightarrow> (x # w) # ws))"

definition index :: "'a list \<Rightarrow> nat \<Rightarrow> 'a option" where
  "index xs i = (if i < length xs then Some (xs ! i) else None)"

text \<open>\<^verbatim>\<open>String.prototype.toLowerCase\<close> and \<^verbatim>\<open>trim\<close>, on ASCII text.\<close>

definition toLowerCase :: "string \<Rightarrow> string" where
  "toLowerCase s =
     map (\<lambda>c. case map_of (zip ''ABCDEFGHIJKLMNOPQRSTUVWXYZ'' ''abcdefghijklmnopqrstuvwxyz'') c of
                None \<Rightarrow> c | Some l \<Rightarrow> l) s"

definition is_space :: "char \<Rightarrow> bool" where
  "is_space c \<longleftrightarrow> c = CHR '' '' \<or> c = CHR 0x09 \<or> c = CHR 0x0A \<or> c = CHR 0x0D"

definition trim :: "string \<Rightarrow> string" where
  "trim s = rev (dropWhile is_space (rev (dropWhile is_space s)))"

subsection \<open>The Admin collection\<close>

text \<open>
  The collection behind the mongoose model \<^verbatim>\<open>Admin\<close>: its documents, and whether the
  store answers at all. A query on an unreachable store rejects, which the callers see
  as a thrown error.
\<close>

record admin_collection =
  documents :: "admin list"
  reachable :: bool

text \<open>\<^verbatim>\<open>Admin.findById(id)\<close>; mongoose answers \<^verbatim>\<open>findById(undefined)\<close> with null.
  Ids are the strings of ObjectIds, as \<^verbatim>\<open>generateToken\<close> puts them into a token.\<close>

definition findById :: "admin_collection \<Rightarrow> string option \<Rightarrow> js_error + admin option" where
  "findById db i =
     (if \<not> reachable db then Inl (Thrown ''MongoNetworkError'')
      else case i of
             None \<Rightarrow> Inr None
           | Some j \<Rightarrow> Inr (find (\<lambda>a. admin_id a = j) (documents db)))"

text \<open>The projection \<^verbatim>\<open>.select('-password')\<close> on a query for one document.\<close>

definition select_minus_password :: "js_error + admin option \<Rightarrow> js_error + admin option" where
  "select_minus_password q =
     (case q of
        Inl e \<Rightarrow> Inl e
      | Inr None \<Rightarrow> Inr None
      | Inr (Some a) \<Rightarrow> Inr (Some (a\<lparr>password := None\<rparr>)))"

text \<open>
  \<^verbatim>\<open>Admin.findOne({ email })\<close>. The schema declares \<^verbatim>\<open>email\<close> with
  \<^verbatim>\<open>lowercase: true, trim: true\<close>; mongoose runs these setters on the value of a query
  filter as it does on a stored value.
\<close>

definition findOne_email :: "admin_collection \<Rightarrow> string \<Rightarrow> js_error + admin option" where
  "findOne_email db e =
     (if \<not> reachable db then Inl (Thrown ''MongoNetworkError'')
      else Inr (find (\<lambda>a. email a = toLowerCase (trim e)) (documents db)))"

text \<open>
  The validators of \<^verbatim>\<open>adminSchema\<close>, which mongoose runs on every save: the names
  are required and of length 2 to 50, the e-mail is required, the password is required
  and of length at least 6, the role and every permission belong to their
  \<^verbatim>\<open>enum\<close>.
\<close>

definition role_enum :: "string list" where
  "role_enum = [''super_admin'', ''admin'', ''moderator'']"

definition permission_enum :: "string list" where
  "permission_enum =
     [''manage_users'', ''manage_jobs'', ''manage_companies'', ''manage_applications'',
      ''view_analytics'', ''manage_admins'', ''manage_content'', ''manage_categories'',
      ''manage_faqs'']"

definition schema_valid :: "admin \<Rightarrow> bool" where
  "schema_valid a \<longleftrightarrow>
     2 \<le> length (firstName a) \<and> length (firstName a) \<le> 50
     \<and> 2 \<le> length (lastName a) \<and> length (lastName a) \<le> 50
     \<and> email a \<noteq> []
     \<and> (case password a of None \<Rightarrow> False | Some h \<Rightarrow> 6 \<le> length h)
     \<and> role a \<in> set role_enum
     \<and> list_all (\<lambda>p. p \<in> set permission_enum) (permissions a)"

text \<open>
  \<^verbatim>\<open>admin.save()\<close> of a loaded document: the schema setters run (names trimmed,
  e-mail trimmed and lowered), then the validators; a failed validator is a
  ValidationError. The unique index on \<^verbatim>\<open>email\<close> is enforced by the store, and the
  document replaces the stored one of the same id. The \<^verbatim>\<open>pre('save')\<close> hook rehashes
  only a modified password, which none of the callers modelled here does. The saved
  document is returned.
\<close>

definition save :: "admin_collection \<Rightarrow> admin \<Rightarrow> js_error + (admin \<times> admin_collection)" where
  "save db a =
     (let d = a\<lparr>firstName := trim (firstName a), lastName := trim (lastName a),
                email := toLowerCase (trim (email a))\<rparr>
      in if \<not> reachable db then Inl (Thrown ''MongoNetworkError'')
         else if \<not> schema_valid d then Inl (Thrown ''ValidationError'')
         else if \<exists>x \<in> set (documents db). admin_id x \<noteq> admin_id d \<and> email x = email d
         then Inl (Thrown ''MongoServerError'')
         else Inr (d, db\<lparr>documents :=
                 map (\<lambda>x. if admin_id x = admin_id d then d else x) (documents db)\<rparr>))"

subsection \<open>Token issuer and verifier\<close>

text \<open>
  The claims of a decoded token: \<^verbatim>\<open>id\<close> (the only one the middleware reads),
  \<^verbatim>\<open>iat\<close> and \<^verbatim>\<open>exp\<close>, in seconds.
\<close>

record jwt_payload =
  payload_id :: "string option"
  payload_iat :: nat
  payload_exp :: "nat option"

text \<open>config/config.js: the shared secret and the lifetime of a token
  (\<^verbatim>\<open>JWT_EXPIRE\<close>, by default \<^verbatim>\<open>'7d'\<close>), the latter in seconds.\<close>

record config =
  JWT_SECRET :: string
  JWT_EXPIRE :: nat

definition default_config :: config where
  "default_config =
     \<lparr> JWT_SECRET = ''admin_super_secret_jwt_key_change_this_in_production'',
       JWT_EXPIRE = 604800 \<rparr>"

text \<open>
  Modelled from the spec: the \<^verbatim>\<open>jsonwebtoken\<close> library (\<^verbatim>\<open>jwt.sign\<close>,
  \<^verbatim>\<open>jwt.verify\<close>), which is not under src/. Section 4.1: a token is a signed value
  embedding the subject id and an expiry computed from a fixed TTL; verification fails
  with \<open>MalformedToken\<close> (the library's \<^verbatim>\<open>JsonWebTokenError\<close>) unless the shared
  secret validates the signature, and with \<open>ExpiredToken\<close>
  (\<^verbatim>\<open>TokenExpiredError\<close>) when the current time exceeds the embedded expiry. A token
  is kept as its claims and the secret that signed it.
\<close>

record jwt =
  jwt_claims :: jwt_payload
  jwt_signed_with :: string

definition jwt_sign :: "string \<Rightarrow> string \<Rightarrow> nat \<Rightarrow> nat \<Rightarrow> jwt" where
  "jwt_sign i secret expiresIn now =
     \<lparr> jwt_claims = \<lparr> payload_id = Some i, payload_iat = now,
                       payload_exp = Some (now + expiresIn) \<rparr>,
       jwt_signed_with = secret \<rparr>"

definition jwt_verify :: "jwt \<Rightarrow> string \<Rightarrow> nat \<Rightarrow> js_error + jwt_payload" where
  "jwt_verify t secret now =
     (if jwt_signed_with t \<noteq> secret then Inl (Thrown ''JsonWebTokenError'')
      else case payload_exp (jwt_claims t) of
             None \<Rightarrow> Inr (jwt_claims t)
           | Some e \<Rightarrow> if e < now then Inl (Thrown ''TokenExpiredError'')
                       else Inr (jwt_claims t))"

text \<open>utils/generateToken.js:
  \<^verbatim>\<open>jwt.sign({ id }, config.JWT_SECRET, { expiresIn: config.JWT_EXPIRE })\<close>, at the
  time \<open>now\<close> of the call.\<close>

definition generateToken :: "config \<Rightarrow> nat \<Rightarrow> string \<Rightarrow> jwt" where
  "generateToken cfg now i = jwt_sign i (JWT_SECRET cfg) (JWT_EXPIRE cfg) now"

subsection \<open>The authorization gate\<close>

text \<open>
  The two tests both middlewares make on the header:
  \<^verbatim>\<open>req.headers.authorization && req.headers.authorization.startsWith('Bearer')\<close>, and
  the truthy value of \<^verbatim>\<open>req.headers.authorization.split(' ')[1]\<close>.
\<close>

definition has_bearer :: "request \<Rightarrow> bool" where
  "has_bearer req =
     (case authorization req of
        None \<Rightarrow> False
      | Some h \<Rightarrow> h \<noteq> [] \<and> prefix ''Bearer'' h)"

definition header_token :: "request \<Rightarrow> string option" where
  "header_token req =
     (case authorization req of
        None \<Rightarrow> None
      | Some h \<Rightarrow>
          (case index (split_on CHR '' '' h) 1 of
             None \<Rightarrow> None
           | Some token \<Rightarrow> if token = [] then None else Some token))"

text \<open>The catch block of \<^verbatim>\<open>protect\<close>.\<close>

definition protect_catch :: "js_error \<Rightarrow> outcome" where
  "protect_catch e =
     (if error_name e = ''JsonWebTokenError'' then Sent 401 ''Invalid token''
      else if error_name e = ''TokenExpiredError'' then Sent 401 ''Token has expired''
      else Sent 500 ''Authentication failed'')"

text \<open>
  \<^verbatim>\<open>protect\<close> of middleware/auth.js. \<open>verify\<close> is the call
  \<^verbatim>\<open>jwt.verify(token, config.JWT_SECRET)\<close> at the time of the request: it throws or
  returns the decoded claims.
\<close>

definition protect ::
  "(string \<Rightarrow> js_error + jwt_payload) \<Rightarrow> admin_collection \<Rightarrow> request \<Rightarrow> outcome" where
  "protect verify db req =
     (if has_bearer req then
        (case header_token req of
           None \<Rightarrow> Sent 401 ''Access token is required''
         | Some token \<Rightarrow>
             (case verify token of
                Inl e \<Rightarrow> protect_catch e
              | Inr decoded \<Rightarrow>
                  if payload_id decoded = None \<or> payload_id decoded = Some []
                  then Sent 401 ''Invalid token format''
                  else (case select_minus_password (findById db (payload_id decoded)) of
                          Inl e \<Rightarrow> protect_catch e
                        | Inr None \<Rightarrow> Sent 401 ''Admin not found''
                        | Inr (Some a) \<Rightarrow>
                            if \<not> isActive a then Sent 401 ''Admin account is deactivated''
                            else Next (req\<lparr>req_admin := Some a\<rparr>))))
      else Sent 401 ''Authorization header with Bearer token is required'')"

text \<open>\<^verbatim>\<open>optionalAuth\<close> of middleware/auth.js: every throw inside the try block ends in
  the catch block, which calls \<^verbatim>\<open>next()\<close>.\<close>

definition optionalAuth ::
  "(string \<Rightarrow> js_error + jwt_payload) \<Rightarrow> admin_collection \<Rightarrow> request \<Rightarrow> outcome" where
  "optionalAuth verify db req =
     (if has_bearer req then
        (case header_token req of
           None \<Rightarrow> Next req
         | Some token \<Rightarrow>
             (case verify token of
                Inl e \<Rightarrow> Next req
              | Inr decoded \<Rightarrow>
                  (case select_minus_password (findById db (payload_id decoded)) of
                     Inl e \<Rightarrow> Next req
                   | Inr None \<Rightarrow> Next req
                   | Inr (Some a) \<Rightarrow>
                       if isActive a then Next (req\<lparr>req_admin := Some a\<rparr>) else Next req)))
      else Next req)"

subsection \<open>Login and profile routes (routes/auth.js)\<close>

text \<open>The body of \<^verbatim>\<open>POST /login\<close>; an absent field fails its validator as the
  empty string does.\<close>

record login_body =
  body_email :: string
  body_password :: string

text \<open>The object the login and refresh handlers build for \<^verbatim>\<open>data.admin\<close>, field by
  field.\<close>

record admin_view =
  view_id :: string
  view_firstName :: string
  view_lastName :: string
  view_email :: string
  view_role :: string
  view_permissions :: "string list"
  view_profileImage :: "string option"
  view_fullName :: string

datatype login_response =
    LoginRejected nat string
  | LoginSuccessful jwt admin_view

text \<open>The virtual \<^verbatim>\<open>fullName\<close> of the schema.\<close>

definition fullName :: "admin \<Rightarrow> string" where
  "fullName a = firstName a @ '' '' @ lastName a"

text \<open>
  \<^verbatim>\<open>adminSchema.methods.comparePassword\<close>: \<open>bcrypt_compare\<close> is
  \<^verbatim>\<open>bcrypt.compare\<close> of the bcryptjs library, which throws when the document carries
  no hash.
\<close>

definition comparePassword ::
  "(string \<Rightarrow> string \<Rightarrow> bool) \<Rightarrow> admin \<Rightarrow> string \<Rightarrow> js_error + bool" where
  "comparePassword bcrypt_compare a enteredPassword =
     (case password a of
        None \<Rightarrow> Inl (Thrown ''Error'')
      | Some h \<Rightarrow> Inr (bcrypt_compare enteredPassword h))"

text \<open>
  The handler of \<^verbatim>\<open>POST /api/admin/auth/login\<close> with its validator chain.
  \<open>isEmail\<close> is the validator of express-validator; \<open>now\<close> is the time of the call.
  The result is the response and the collection after the request.
\<close>

definition login ::
  "(string \<Rightarrow> bool) \<Rightarrow> (string \<Rightarrow> string \<Rightarrow> bool) \<Rightarrow> config \<Rightarrow> nat \<Rightarrow>
   admin_collection \<Rightarrow> login_body \<Rightarrow> login_response \<times> admin_collection" where
  "login isEmail bcrypt_compare cfg now db body =
     (if \<not> isEmail (body_email body) \<or> length (body_password body) < 6
      then (LoginRejected 400 ''Validation errors'', db)
      else
        (case findOne_email db (body_email body) of
           Inl e \<Rightarrow> (LoginRejected 500 ''Server error'', db)
         | Inr None \<Rightarrow> (LoginRejected 401 ''Invalid credentials'', db)
         | Inr (Some a) \<Rightarrow>
             if \<not> isActive a
             then (LoginRejected 401 ''Admin account is deactivated'', db)
             else
               (case comparePassword bcrypt_compare a (body_password body) of
                  Inl e \<Rightarrow> (LoginRejected 500 ''Server error'', db)
                | Inr isMatch \<Rightarrow>
                    if \<not> isMatch
                    then (LoginRejected 401 ''Invalid credentials'', db)
                    else
                      (case save db (a\<lparr>lastLogin := Some now\<rparr>) of
                         Inl e \<Rightarrow> (LoginRejected 500 ''Server error'', db)
                       | Inr (saved, db') \<Rightarrow>
                           (LoginSuccessful (generateToken cfg now (admin_id saved))
                              \<lparr> view_id = admin_id saved,
                                view_firstName = firstName saved,
                                view_lastName = lastName saved,
                                view_email = email saved,
                                view_role = role saved,
                                view_permissions = permissions saved,
                                view_profileImage = profileImage saved,
                                view_fullName = fullName saved \<rparr>,
                            db')))))"

text \<open>The body of \<^verbatim>\<open>PUT /profile\<close>: every field may be absent.\<close>

record profile_body =
  new_firstName :: "string option"
  new_lastName :: "string option"
  new_email :: "string option"
  new_phone :: "string option"
  new_department :: "string option"
  new_profileImage :: "string option"

datatype profile_response =
    ProfileRejected nat string
  | ProfileUpdated admin

text \<open>A validator behind \<^verbatim>\<open>.optional()\<close> is skipped for an absent field.\<close>

definition optional :: "('a \<Rightarrow> bool) \<Rightarrow> 'a option \<Rightarrow> bool" where
  "optional ok v = (case v of None \<Rightarrow> True | Some x \<Rightarrow> ok x)"

definition isLength :: "nat \<Rightarrow> nat \<Rightarrow> string \<Rightarrow> bool" where
  "isLength lo hi v \<longleftrightarrow> lo \<le> length v \<and> length v \<le> hi"

text \<open>\<^verbatim>\<open>if (v) admin.field = v\<close>: only a truthy (present, non-empty) string is
  assigned.\<close>

definition truthy_or :: "string option \<Rightarrow> string \<Rightarrow> string" where
  "truthy_or v old = (case v of None \<Rightarrow> old | Some x \<Rightarrow> if x = [] then old else x)"

definition truthy_or_opt :: "string option \<Rightarrow> string option \<Rightarrow> string option" where
  "truthy_or_opt v old = (case v of None \<Rightarrow> old | Some x \<Rightarrow> if x = [] then old else Some x)"

text \<open>
  The handler of \<^verbatim>\<open>PUT /api/admin/auth/profile\<close>, which runs after \<^verbatim>\<open>protect\<close>:
  it reloads the document with \<^verbatim>\<open>Admin.findById(req.admin.id)\<close> (no projection),
  assigns the truthy fields, saves, and answers with
  \<^verbatim>\<open>{success: true, message: 'Profile updated successfully', data: updatedAdmin}\<close>.
  A missing \<^verbatim>\<open>req.admin\<close> or document is a TypeError inside the try block.
\<close>

definition update_profile ::
  "(string \<Rightarrow> bool) \<Rightarrow> (string \<Rightarrow> bool) \<Rightarrow> admin_collection \<Rightarrow> request \<Rightarrow> profile_body
   \<Rightarrow> profile_response \<times> admin_collection" where
  "update_profile isEmail isMobilePhone db req body =
     (if \<not> (optional (isLength 2 50) (new_firstName body)
             \<and> optional (isLength 2 50) (new_lastName body)
             \<and> optional isEmail (new_email body)
             \<and> optional isMobilePhone (new_phone body)
             \<and> optional (isLength 2 50) (new_department body))
      then (ProfileRejected 400 ''Validation errors'', db)
      else
        (case req_admin req of
           None \<Rightarrow> (ProfileRejected 500 ''Server error'', db)
         | Some ra \<Rightarrow>
             (case findById db (Some (admin_id ra)) of
                Inl e \<Rightarrow> (ProfileRejected 500 ''Server error'', db)
              | Inr None \<Rightarrow> (ProfileRejected 500 ''Server error'', db)
              | Inr (Some a) \<Rightarrow>
                  (case save db
                          (a\<lparr> firstName := truthy_or (new_firstName body) (firstName a),
                              lastName := truthy_or (new_lastName body) (lastName a),
                              email := truthy_or (new_email body) (email a),
                              phone := truthy_or_opt (new_phone body) (phone a),
                              department := truthy_or_opt (new_department body) (department a),
                              profileImage :=
                                truthy_or_opt (new_profileImage body) (profileImage a) \<rparr>) of
                     Inl e \<Rightarrow> (ProfileRejected 500 ''Server error'', db)
                   | Inr (updatedAdmin, db') \<Rightarrow> (ProfileUpdated updatedAdmin, db')))))"

text \<open>
  What the schema guarantees of a stored document (setters applied, validators passed)
  and of the collection (the unique index on \<^verbatim>\<open>email\<close>, distinct ids): the state
  of a collection written through \<^verbatim>\<open>Admin.create\<close> and \<^verbatim>\<open>admin.save()\<close> only.
\<close>

definition stored_by_schema :: "admin \<Rightarrow> bool" where
  "stored_by_schema a \<longleftrightarrow>
     trim (firstName a) = firstName a \<and> trim (lastName a) = lastName a
     \<and> toLowerCase (trim (email a)) = email a
     \<and> schema_valid a"

definition well_formed :: "admin_collection \<Rightarrow> bool" where
  "well_formed db \<longleftrightarrow>
     list_all stored_by_schema (documents db)
     \<and> distinct (map email (documents db))
     \<and> distinct (map admin_id (documents db))"

subsection \<open>Permission check\<close>


text \<open>
  \<^verbatim>\<open>adminSchema.methods.hasPermission = function(permission) {
    return this.permissions.includes(permission) || this.role === 'super_admin'; }\<close>
\<close>

definition hasPermission :: "admin \<Rightarrow> string \<Rightarrow> bool" where
  "hasPermission a permission \<longleftrightarrow>
     permission \<in> set (permissions a) \<or> role a = ''super_admin''"

text \<open>The middleware \<^verbatim>\<open>checkPermission(permission)\<close> of middleware/auth.js.\<close>

definition checkPermission :: "string \<Rightarrow> request \<Rightarrow> outcome" where
  "checkPermission permission req =
     (case req_admin req of
        None \<Rightarrow> Sent 401 ''Authentication required''
      | Some a \<Rightarrow>
          if \<not> hasPermission a permission
          then Sent 403 (''Permission '' @ permission @ '' is required to access this route'')
          else Next req)"

section \<open>Category routes of the admin backend (routes/categories.js)\<close>



subsection \<open>The list route\<close>

text \<open>
  The query string of \<^verbatim>\<open>GET /api/admin/categories\<close>, as the validator chain lets
  it through: \<^verbatim>\<open>status\<close>, \<^verbatim>\<open>featured\<close>, \<^verbatim>\<open>sortBy\<close> and \<^verbatim>\<open>sortOrder\<close>
  take the values of their allow-lists (\<^verbatim>\<open>isIn\<close>, \<^verbatim>\<open>isBoolean\<close>), \<^verbatim>\<open>page\<close> and
  \<^verbatim>\<open>limit\<close> are integers (\<^verbatim>\<open>isInt\<close>) whose range is checked below, and every
  parameter may be absent.
\<close>

datatype status_value = Status_active | Status_inactive

datatype boolean_string = Str_true | Str_false | Str_1 | Str_0



















subsection \<open>The bulk update route\<close>













section \<open>Applications of the job portal backend (routes/applications.js)\<close>

record job =
  job_id :: string
  job_isActive :: bool
  applicationDeadline :: nat
  job_company :: string
  job_applications :: "string list"

record application =
  app_id :: string
  app_job :: string
  app_applicant :: string
  app_company :: string
  coverLetter :: string
  resume :: string
  expectedSalary :: int
  availability :: string

text \<open>The body of \<^verbatim>\<open>POST /api/applications\<close>.\<close>

record apply_body =
  body_job :: string
  body_coverLetter :: string
  body_resume :: string
  body_expectedSalary :: int
  body_availability :: string

datatype apply_response =
    ApplyRejected nat string
  | ApplyCreated application

text \<open>
  \<^verbatim>\<open>Application.create(doc)\<close> under
  \<^verbatim>\<open>applicationSchema.index({ job: 1, applicant: 1 }, { unique: true })\<close>: the store
  refuses a second document with the same pair by a duplicate-key error (code 11000).
  The validation of the new document against its schema, whose failure also ends in the
  catch block of the handler with nothing stored, is left out.
\<close>

definition create_application :: "application list \<Rightarrow> application \<Rightarrow> js_error + application list" where
  "create_application apps a =
     (if \<exists>x \<in> set apps. app_job x = app_job a \<and> app_applicant x = app_applicant a
      then Inl (Thrown ''MongoServerError'')
      else Inr (apps @ [a]))"

text \<open>The validator chain of the route: a job id, a cover letter of at least 100
  characters, a resume, a non-negative expected salary, a known availability.\<close>

definition apply_validators :: "(string \<Rightarrow> bool) \<Rightarrow> apply_body \<Rightarrow> bool" where
  "apply_validators isMongoId body \<longleftrightarrow>
     isMongoId (body_job body) \<and> 100 \<le> length (body_coverLetter body)
     \<and> body_resume body \<noteq> [] \<and> 0 \<le> body_expectedSalary body
     \<and> body_availability body
         \<in> set [''immediately'', ''2-weeks'', ''1-month'', ''3-months'', ''negotiable'']"

text \<open>
  The handler of \<^verbatim>\<open>POST /api/applications\<close>, for the user \<open>user\<close> that
  \<^verbatim>\<open>protect\<close> resolved; \<open>isMongoId\<close> is the validator, \<open>now\<close> the time,
  \<open>new_id\<close> the id the store gives the new document. Other requests run between the
  awaits of the handler, so the collection the pre-check \<^verbatim>\<open>Application.findOne\<close> reads
  (\<open>apps_at_check\<close>) and the one \<^verbatim>\<open>Application.create\<close> writes to
  (\<open>apps_at_create\<close>) are two arguments; in a run without interleaving they are equal.
  The result is the response, the applications and the jobs after the request.
\<close>

definition apply_for_job ::
  "(string \<Rightarrow> bool) \<Rightarrow> nat \<Rightarrow> string \<Rightarrow> string \<Rightarrow> job list \<Rightarrow> application list
   \<Rightarrow> application list \<Rightarrow> apply_body \<Rightarrow> apply_response \<times> application list \<times> job list" where
  "apply_for_job isMongoId now new_id user jobs apps_at_check apps_at_create body =
     (if \<not> apply_validators isMongoId body
      then (ApplyRejected 400 ''Validation errors'', apps_at_create, jobs)
      else
        (case find (\<lambda>j. job_id j = body_job body) jobs of
           None \<Rightarrow> (ApplyRejected 404 ''Job not found'', apps_at_create, jobs)
         | Some job \<Rightarrow>
             if \<not> job_isActive job
             then (ApplyRejected 400 ''This job is no longer accepting applications'',
                   apps_at_create, jobs)
             else if applicationDeadline job < now
             then (ApplyRejected 400 ''Application deadline has passed'', apps_at_create, jobs)
             else
               (case find (\<lambda>a. app_job a = body_job body \<and> app_applicant a = user)
                       apps_at_check of
                  Some existingApplication \<Rightarrow>
                    (ApplyRejected 400 ''You have already applied for this job'',
                     apps_at_create, jobs)
                | None \<Rightarrow>
                    (let a = \<lparr> app_id = new_id, app_job = body_job body, app_applicant = user,
                                app_company = job_company job,
                                coverLetter = body_coverLetter body, resume = body_resume body,
                                expectedSalary = body_expectedSalary body,
                                availability = body_availability body \<rparr>
                     in case create_application apps_at_create a of
                          Inl e \<Rightarrow> (ApplyRejected 500 ''Server error'', apps_at_create, jobs)
                        | Inr apps' \<Rightarrow>
                            (ApplyCreated a, apps',
                             map (\<lambda>j. if job_id j = job_id job
                                       then j\<lparr>job_applications := job_applications j @ [new_id]\<rparr>
                                       else j) jobs)))))"

text \<open>The pair the unique index is declared on.\<close>

definition index_key :: "application \<Rightarrow> string \<times> string" where
  "index_key a = (app_job a, app_applicant a)"

section \<open>Dashboard statistics of the admin backend (routes/dashboard.js)\<close>

text \<open>The queries of \<^verbatim>\<open>GET /api/admin/dashboard/stats\<close>, named after the variables
  that receive their results.\<close>

datatype stats_query =
    TotalUsers | TotalJobs | TotalCompanies | TotalApplications | TotalCategories
  | TotalFAQs | TotalContent
  | ActiveUsers | ActiveJobs | ActiveCompanies | ActiveCategories | ActiveFAQs
  | PublishedContent
  | RecentUsers | RecentJobs | RecentApplications
  | MonthlyUsers | MonthlyJobs | MonthlyApplications | MonthlyCompanies
  | JobCategories | UserRoles | ApplicationStatus | CompanyIndustries | FaqCategories
  | ContentTypes

text \<open>
  What the database does with each query, as a settled promise: \<open>Inl\<close> is a
  rejection. \<open>count_result\<close> answers the \<^verbatim>\<open>countDocuments\<close> calls,
  \<open>find_result\<close> the \<^verbatim>\<open>find\<close> calls, \<open>aggregate_result\<close> the
  \<^verbatim>\<open>aggregate\<close> calls.
\<close>

record 'd stats_db =
  count_result :: "stats_query \<Rightarrow> js_error + nat"
  find_result :: "stats_query \<Rightarrow> js_error + 'd list"
  aggregate_result :: "stats_query \<Rightarrow> js_error + (string \<times> nat) list"

text \<open>\<^verbatim>\<open>p.catch(() => d)\<close>: a rejection becomes the value \<open>d\<close>.\<close>

definition catch_default :: "js_error + 'a \<Rightarrow> 'a \<Rightarrow> js_error + 'a" where
  "catch_default p d = (case p of Inl e \<Rightarrow> Inr d | Inr v \<Rightarrow> Inr v)"

text \<open>\<^verbatim>\<open>Promise.all\<close>: the values of all promises, or the first rejection.\<close>

fun promise_all :: "(js_error + 'a) list \<Rightarrow> js_error + 'a list" where
  "promise_all [] = Inr []"
| "promise_all (p # ps) =
     (case p of
        Inl e \<Rightarrow> Inl e
      | Inr v \<Rightarrow> (case promise_all ps of Inl e \<Rightarrow> Inl e | Inr vs \<Rightarrow> Inr (v # vs)))"

text \<open>
  The order in which queries are dispatched and awaited is kept as a trace.
  \<^verbatim>\<open>await Promise.all([run(q1), ..., run(qn)])\<close> evaluates the array, which
  dispatches every query, and then awaits them all.
\<close>

datatype event = Dispatch stats_query | Await stats_query

definition await_all ::
  "(stats_query \<Rightarrow> js_error + 'a) \<Rightarrow> stats_query list \<Rightarrow> event list
   \<Rightarrow> (js_error + 'a list) \<times> event list" where
  "await_all run qs trace =
     (promise_all (map run qs), trace @ map Dispatch qs @ map Await qs)"

record overview =
  totalUsers :: nat
  totalJobs :: nat
  totalCompanies :: nat
  totalApplications :: nat
  totalCategories :: nat
  totalFAQs :: nat
  totalContent :: nat

record active =
  active_users :: nat
  active_jobs :: nat
  active_companies :: nat
  active_categories :: nat
  active_faqs :: nat
  active_content :: nat

record monthly =
  monthly_users :: nat
  monthly_jobs :: nat
  monthly_applications :: nat
  monthly_companies :: nat

record 'd recent =
  recent_users :: "'d list"
  recent_jobs :: "'d list"
  recent_applications :: "'d list"

record analytics =
  jobCategories :: "(string \<times> nat) list"
  userRoles :: "(string \<times> nat) list"
  applicationStatus :: "(string \<times> nat) list"
  companyIndustries :: "(string \<times> nat) list"
  faqCategories :: "(string \<times> nat) list"
  contentTypes :: "(string \<times> nat) list"

record 'd stats_data =
  data_overview :: overview
  data_active :: active
  data_monthly :: monthly
  data_recent :: "'d recent"
  data_analytics :: analytics

datatype 'd stats_response =
    StatsFailed nat string
  | Stats "'d stats_data"

text \<open>
  The handler: four \<^verbatim>\<open>await Promise.all([...])\<close> in a row (totals, active counts,
  recent documents, counts of the month), each query with its own
  \<^verbatim>\<open>.catch(() => 0)\<close> or \<^verbatim>\<open>.catch(() => [])\<close>, then six aggregations awaited one
  after the other, each with \<^verbatim>\<open>.catch(() => [])\<close>. A rejection that reaches an
  \<^verbatim>\<open>await\<close> ends in the catch block of the handler, which answers 500.
\<close>

definition dashboard_stats :: "'d stats_db \<Rightarrow> 'd stats_response \<times> event list" where
  "dashboard_stats db =
     (let count = (\<lambda>q. catch_default (count_result db q) 0);
          docs = (\<lambda>q. catch_default (find_result db q) []);
          groups = (\<lambda>q. catch_default (aggregate_result db q) []);
          failed = StatsFailed 500 ''Failed to fetch dashboard statistics''
      in
      case await_all count [TotalUsers, TotalJobs, TotalCompanies, TotalApplications,
                            TotalCategories, TotalFAQs, TotalContent] [] of
        (Inl e, t1) \<Rightarrow> (failed, t1)
      | (Inr totals, t1) \<Rightarrow>
      (case await_all count [ActiveUsers, ActiveJobs, ActiveCompanies, ActiveCategories,
                             ActiveFAQs, PublishedContent] t1 of
        (Inl e, t2) \<Rightarrow> (failed, t2)
      | (Inr actives, t2) \<Rightarrow>
      (case await_all docs [RecentUsers, RecentJobs, RecentApplications] t2 of
        (Inl e, t3) \<Rightarrow> (failed, t3)
      | (Inr recents, t3) \<Rightarrow>
      (case await_all count [MonthlyUsers, MonthlyJobs, MonthlyApplications,
                             MonthlyCompanies] t3 of
        (Inl e, t4) \<Rightarrow> (failed, t4)
      | (Inr monthlies, t4) \<Rightarrow>
      (case await_all groups [JobCategories] t4 of
        (Inl e, t5) \<Rightarrow> (failed, t5)
      | (Inr a1, t5) \<Rightarrow>
      (case await_all groups [UserRoles] t5 of
        (Inl e, t6) \<Rightarrow> (failed, t6)
      | (Inr a2, t6) \<Rightarrow>
      (case await_all groups [ApplicationStatus] t6 of
        (Inl e, t7) \<Rightarrow> (failed, t7)
      | (Inr a3, t7) \<Rightarrow>
      (case await_all groups [CompanyIndustries] t7 of
        (Inl e, t8) \<Rightarrow> (failed, t8)
      | (Inr a4, t8) \<Rightarrow>
      (case await_all groups [FaqCategories] t8 of
        (Inl e, t9) \<Rightarrow> (failed, t9)
      | (Inr a5, t9) \<Rightarrow>
      (case await_all groups [ContentTypes] t9 of
        (Inl e, t10) \<Rightarrow> (failed, t10)
      | (Inr a6, t10) \<Rightarrow>
          (Stats
             \<lparr> data_overview =
                 \<lparr> totalUsers = totals ! 0, totalJobs = totals ! 1,
                   totalCompanies = totals ! 2, totalApplications = totals ! 3,
                   totalCategories = totals ! 4, totalFAQs = totals ! 5,
                   totalContent = totals ! 6 \<rparr>,
               data_active =
                 \<lparr> active_users = actives ! 0, active_jobs = actives ! 1,
                   active_companies = actives ! 2, active_categories = actives ! 3,
                   active_faqs = actives ! 4, active_content = actives ! 5 \<rparr>,
               data_monthly =
                 \<lparr> monthly_users = monthlies ! 0, monthly_jobs = monthlies ! 1,
                   monthly_applications = monthlies ! 2, monthly_companies = monthlies ! 3 \<rparr>,
               data_recent =
                 \<lparr> recent_users = recents ! 0, recent_jobs = recents ! 1,
                   recent_applications = recents ! 2 \<rparr>,
               data_analytics =
                 \<lparr> jobCategories = a1 ! 0, userRoles = a2 ! 0, applicationStatus = a3 ! 0,
                   companyIndustries = a4 ! 0, faqCategories = a5 ! 0,
                   contentTypes = a6 ! 0 \<rparr> \<rparr>,
           t10)))))))))))"

text \<open>The value a field of the report takes: the result of its query, or the default
  of its \<^verbatim>\<open>.catch\<close> when the query was rejected.\<close>

definition or_default :: "js_error + 'a \<Rightarrow> 'a \<Rightarrow> 'a" where
  "or_default p d = (case p of Inl e \<Rightarrow> d | Inr v \<Rightarrow> v)"

subsection \<open>Example documents\<close>

definition root_admin :: admin where
  "root_admin = \<lparr> admin_id = ''a1'', firstName = ''Admin'', lastName = ''User'',
     email = ''admin@jobportal.com'', password = Some ''$2a$12$hashA'',
     role = ''super_admin'', isActive = True, permissions = [],
     lastLogin = None, profileImage = None, phone = None, department = None \<rparr>"

definition jobs_moderator :: admin where
  "jobs_moderator = \<lparr> admin_id = ''a2'', firstName = ''Mod'', lastName = ''Erator'',
     email = ''mod@jobportal.com'', password = Some ''$2a$12$hashB'',
     role = ''moderator'', isActive = True, permissions = [''manage_jobs''],
     lastLogin = None, profileImage = None, phone = None, department = None \<rparr>"

definition retired_admin :: admin where
  "retired_admin = \<lparr> admin_id = ''a3'', firstName = ''Former'', lastName = ''Admin'',
     email = ''former@jobportal.com'', password = Some ''$2a$12$hashC'',
     role = ''admin'', isActive = False, permissions = [''manage_users''],
     lastLogin = Some 100, profileImage = None, phone = None, department = None \<rparr>"

definition admins :: admin_collection where
  "admins = \<lparr> documents = [root_admin, jobs_moderator, retired_admin], reachable = True \<rparr>"

text \<open>A verifier for the examples: three tokens verify, to the ids \<open>a1\<close>, \<open>a3\<close> and
  \<open>a9\<close> (of no document); one has expired; every other string is malformed.\<close>

definition verify_example :: "string \<Rightarrow> js_error + jwt_payload" where
  "verify_example t =
     (if t = ''tok1'' then Inr \<lparr>payload_id = Some ''a1'', payload_iat = 0, payload_exp = Some 604800\<rparr>
      else if t = ''tok3'' then Inr \<lparr>payload_id = Some ''a3'', payload_iat = 0, payload_exp = Some 604800\<rparr>
      else if t = ''tok9'' then Inr \<lparr>payload_id = Some ''a9'', payload_iat = 0, payload_exp = Some 604800\<rparr>
      else if t = ''old'' then Inl (Thrown ''TokenExpiredError'')
      else Inl (Thrown ''JsonWebTokenError''))"

definition bearer_request :: "string \<Rightarrow> request" where
  "bearer_request t = \<lparr> authorization = Some (''Bearer '' @ t), req_admin = None \<rparr>"

text \<open>Stand-ins for the library predicates in the examples: an e-mail address has
  an \<open>@\<close>, a phone number is made of digits, and each example hash matches one
  password.\<close>

definition isEmail_example :: "string \<Rightarrow> bool" where
  "isEmail_example v \<longleftrightarrow> CHR ''@'' \<in> set v"

definition isMobilePhone_example :: "string \<Rightarrow> bool" where
  "isMobilePhone_example v \<longleftrightarrow> v \<noteq> [] \<and> list_all (\<lambda>c. c \<in> set ''0123456789'') v"

definition compare_example :: "string \<Rightarrow> string \<Rightarrow> bool" where
  "compare_example entered h \<longleftrightarrow>
     (entered = ''admin123456'' \<and> h = ''$2a$12$hashA'')
     \<or> (entered = ''moderator1'' \<and> h = ''$2a$12$hashB'')
     \<or> (entered = ''formerpw'' \<and> h = ''$2a$12$hashC'')"






definition isMongoId_example :: "string \<Rightarrow> bool" where
  "isMongoId_example v \<longleftrightarrow> v \<noteq> []"

definition open_job :: job where
  "open_job = \<lparr> job_id = ''j1'', job_isActive = True, applicationDeadline = 5000,
                 job_company = ''co1'', job_applications = [] \<rparr>"

definition application_body :: apply_body where
  "application_body = \<lparr> body_job = ''j1'', body_coverLetter = replicate 100 CHR ''x'',
       body_resume = ''resume.pdf'', body_expectedSalary = 50000,
       body_availability = ''immediately'' \<rparr>"

definition first_application :: application where
  "first_application = \<lparr> app_id = ''p1'', app_job = ''j1'', app_applicant = ''u1'',
       app_company = ''co1'', coverLetter = replicate 100 CHR ''x'', resume = ''resume.pdf'',
       expectedSalary = 50000, availability = ''immediately'' \<rparr>"

text \<open>A database for the statistics examples: the count of all jobs and the list of
  recent jobs are rejected, every other query answers.\<close>

definition stats_example :: "nat stats_db" where
  "stats_example =
     \<lparr> count_result = (\<lambda>q. if q = TotalJobs then Inl (Thrown ''MongoNetworkError'') else Inr 3),
       find_result = (\<lambda>q. if q = RecentJobs then Inl (Thrown ''MongoNetworkError'') else Inr [1, 2]),
       aggregate_result = (\<lambda>q. Inr [(''key'', 3)]) \<rparr>"

section \<open>Permission checks\<close>

text \<open>
  Claim C2. For every permission string \<open>p\<close>, a principal whose role is
  \<open>super_admin\<close> passes \<open>checkPermission p\<close> even when \<open>p\<close> is absent from its
  stored permissions; a principal of any other role passes if and only if \<open>p\<close> is an
  element of its stored permissions (and is answered 403 otherwise).
\<close>

theorem checkPermission_super_admin_or_member:
  assumes "req_admin req = Some a"
  shows "(role a = ''super_admin'' \<longrightarrow> checkPermission p req = Next req)
       \<and> (role a \<noteq> ''super_admin'' \<longrightarrow>
            (checkPermission p req = Next req \<longleftrightarrow> p \<in> set (permissions a)))
       \<and> (checkPermission p req \<noteq> Next req \<longrightarrow>
            checkPermission p req
              = Sent 403 (''Permission '' @ p @ '' is required to access this route''))"
  using assms by (simp add: checkPermission_def hasPermission_def)

theorem checkPermission_super_admin_or_member_witness:
  "req_admin \<lparr>authorization = None, req_admin = Some root_admin\<rparr> = Some root_admin
   \<and> role root_admin = ''super_admin''
   \<and> ''manage_jobs'' \<notin> set (permissions root_admin)
   \<and> checkPermission ''manage_jobs'' \<lparr>authorization = None, req_admin = Some root_admin\<rparr>
       = Next \<lparr>authorization = None, req_admin = Some root_admin\<rparr>"
  using checkPermission_super_admin_or_member
    [of "\<lparr>authorization = None, req_admin = Some root_admin\<rparr>" root_admin "''manage_jobs''"]
  by (simp add: root_admin_def)

section \<open>The authorization gate\<close>

lemma select_minus_password_Inr:
  "select_minus_password q = Inr r \<longleftrightarrow>
     (q = Inr None \<and> r = None) \<or> (\<exists>a. q = Inr (Some a) \<and> r = Some (a\<lparr>password := None\<rparr>))"
  by (auto simp: select_minus_password_def split: sum.splits option.splits)

lemma select_minus_password_Inl:
  "select_minus_password q = Inl e \<longleftrightarrow> q = Inl e"
  by (auto simp: select_minus_password_def split: sum.splits option.splits)

lemma protect_Next:
  "protect verify db req = Next r \<longleftrightarrow>
     has_bearer req \<and>
     (\<exists>t d i a. header_token req = Some t \<and> verify t = Inr d \<and> payload_id d = Some i \<and> i \<noteq> []
        \<and> findById db (Some i) = Inr (Some a) \<and> isActive a
        \<and> r = req\<lparr>req_admin := Some (a\<lparr>password := None\<rparr>)\<rparr>)"
  by (auto simp: protect_def protect_catch_def select_minus_password_def
           split: option.splits sum.splits if_splits)

lemma protect_Sent:
  "protect verify db req = Sent st m \<Longrightarrow> st = 401 \<or> (st = 500 \<and> m = ''Authentication failed'')"
  by (auto simp: protect_def protect_catch_def select_minus_password_def
           split: option.splits sum.splits if_splits)

lemma protect_Sent_500:
  "protect verify db req = Sent 500 m \<Longrightarrow>
     has_bearer req \<and>
     (\<exists>t e. header_token req = Some t
        \<and> error_name e \<noteq> ''JsonWebTokenError'' \<and> error_name e \<noteq> ''TokenExpiredError''
        \<and> (verify t = Inl e
            \<or> (\<exists>d i. verify t = Inr d \<and> payload_id d = Some i \<and> i \<noteq> []
                  \<and> findById db (Some i) = Inl e)))"
  by (auto simp: protect_def protect_catch_def select_minus_password_def
           split: option.splits sum.splits if_splits)

text \<open>
  Claim C1, as amended. The case analysis of \<open>protect\<close>: a request without a Bearer
  header, or without a token in it, is answered 401; a token whose verification throws
  \<open>JsonWebTokenError\<close> (malformed) or \<open>TokenExpiredError\<close> (expired) is answered
  401; a verified token without an id, or whose id resolves to no principal, is
  answered 401; a principal with \<open>isActive = False\<close> is answered 401, however valid
  the token; when the verification or the lookup of the principal throws any other error
  (the store does not answer, for one), the answer is 500 \<open>Authentication failed\<close>;
  otherwise the principal, loaded without its password, is attached to the request and
  the handler runs. These cases are all there are: every answer of \<open>protect\<close> itself
  is a 401 or that 500, the 500 comes from such an error only, and the handler runs for
  no request that did not pass every check.
\<close>

theorem protect_case_analysis:
  "(\<not> has_bearer req \<longrightarrow>
      protect verify db req = Sent 401 ''Authorization header with Bearer token is required'')
   \<and> (has_bearer req \<and> header_token req = None \<longrightarrow>
      protect verify db req = Sent 401 ''Access token is required'')
   \<and> (has_bearer req \<and> header_token req = Some t \<longrightarrow>
        (verify t = Inl (Thrown ''JsonWebTokenError'') \<longrightarrow>
           protect verify db req = Sent 401 ''Invalid token'')
      \<and> (verify t = Inl (Thrown ''TokenExpiredError'') \<longrightarrow>
           protect verify db req = Sent 401 ''Token has expired'')
      \<and> (verify t = Inl e \<and> error_name e \<noteq> ''JsonWebTokenError''
            \<and> error_name e \<noteq> ''TokenExpiredError'' \<longrightarrow>
           protect verify db req = Sent 500 ''Authentication failed'')
      \<and> (verify t = Inr d \<and> (payload_id d = None \<or> payload_id d = Some []) \<longrightarrow>
           protect verify db req = Sent 401 ''Invalid token format'')
      \<and> (verify t = Inr d \<and> payload_id d = Some i \<and> i \<noteq> [] \<longrightarrow>
           (findById db (Some i) = Inl e \<and> error_name e \<noteq> ''JsonWebTokenError''
              \<and> error_name e \<noteq> ''TokenExpiredError'' \<longrightarrow>
              protect verify db req = Sent 500 ''Authentication failed'')
         \<and> (findById db (Some i) = Inr None \<longrightarrow>
              protect verify db req = Sent 401 ''Admin not found'')
         \<and> (findById db (Some i) = Inr (Some a) \<and> \<not> isActive a \<longrightarrow>
              protect verify db req = Sent 401 ''Admin account is deactivated'')
         \<and> (findById db (Some i) = Inr (Some a) \<and> isActive a \<longrightarrow>
              protect verify db req = Next (req\<lparr>req_admin := Some (a\<lparr>password := None\<rparr>)\<rparr>))))
   \<and> (\<forall>st m. protect verify db req = Sent st m \<longrightarrow>
        st = 401 \<or> (st = 500 \<and> m = ''Authentication failed''))
   \<and> (\<forall>m. protect verify db req = Sent 500 m \<longrightarrow>
        has_bearer req \<and>
        (\<exists>t' e'. header_token req = Some t'
           \<and> error_name e' \<noteq> ''JsonWebTokenError'' \<and> error_name e' \<noteq> ''TokenExpiredError''
           \<and> (verify t' = Inl e'
               \<or> (\<exists>d' i'. verify t' = Inr d' \<and> payload_id d' = Some i' \<and> i' \<noteq> []
                     \<and> findById db (Some i') = Inl e'))))
   \<and> (\<forall>r. protect verify db req = Next r \<longrightarrow>
        has_bearer req \<and>
        (\<exists>t' d' i' a'. header_token req = Some t' \<and> verify t' = Inr d'
           \<and> payload_id d' = Some i' \<and> i' \<noteq> []
           \<and> findById db (Some i') = Inr (Some a') \<and> isActive a'
           \<and> r = req\<lparr>req_admin := Some (a'\<lparr>password := None\<rparr>)\<rparr>))"
proof -
  have header: "(\<not> has_bearer req \<longrightarrow>
      protect verify db req = Sent 401 ''Authorization header with Bearer token is required'')
   \<and> (has_bearer req \<and> header_token req = None \<longrightarrow>
      protect verify db req = Sent 401 ''Access token is required'')"
    by (simp add: protect_def)
  have token: "has_bearer req \<and> header_token req = Some t \<longrightarrow>
        (verify t = Inl (Thrown ''JsonWebTokenError'') \<longrightarrow>
           protect verify db req = Sent 401 ''Invalid token'')
      \<and> (verify t = Inl (Thrown ''TokenExpiredError'') \<longrightarrow>
           protect verify db req = Sent 401 ''Token has expired'')
      \<and> (verify t = Inl e \<and> error_name e \<noteq> ''JsonWebTokenError''
            \<and> error_name e \<noteq> ''TokenExpiredError'' \<longrightarrow>
           protect verify db req = Sent 500 ''Authentication failed'')
      \<and> (verify t = Inr d \<and> (payload_id d = None \<or> payload_id d = Some []) \<longrightarrow>
           protect verify db req = Sent 401 ''Invalid token format'')"
    by (auto simp: protect_def protect_catch_def)
  have principal: "has_bearer req \<and> header_token req = Some t \<longrightarrow>
        verify t = Inr d \<and> payload_id d = Some i \<and> i \<noteq> [] \<longrightarrow>
           (findById db (Some i) = Inl e \<and> error_name e \<noteq> ''JsonWebTokenError''
              \<and> error_name e \<noteq> ''TokenExpiredError'' \<longrightarrow>
              protect verify db req = Sent 500 ''Authentication failed'')
         \<and> (findById db (Some i) = Inr None \<longrightarrow>
              protect verify db req = Sent 401 ''Admin not found'')
         \<and> (findById db (Some i) = Inr (Some a) \<and> \<not> isActive a \<longrightarrow>
              protect verify db req = Sent 401 ''Admin account is deactivated'')
         \<and> (findById db (Some i) = Inr (Some a) \<and> isActive a \<longrightarrow>
              protect verify db req = Next (req\<lparr>req_admin := Some (a\<lparr>password := None\<rparr>)\<rparr>))"
    by (simp add: protect_def protect_catch_def select_minus_password_def)
  have answers: "\<forall>st m. protect verify db req = Sent st m \<longrightarrow>
        st = 401 \<or> (st = 500 \<and> m = ''Authentication failed'')"
    using protect_Sent by blast
  have internal: "\<forall>m. protect verify db req = Sent 500 m \<longrightarrow>
        has_bearer req \<and>
        (\<exists>t' e'. header_token req = Some t'
           \<and> error_name e' \<noteq> ''JsonWebTokenError'' \<and> error_name e' \<noteq> ''TokenExpiredError''
           \<and> (verify t' = Inl e'
               \<or> (\<exists>d' i'. verify t' = Inr d' \<and> payload_id d' = Some i' \<and> i' \<noteq> []
                     \<and> findById db (Some i') = Inl e')))"
    using protect_Sent_500 by blast
  have passes: "\<forall>r. protect verify db req = Next r \<longrightarrow>
        has_bearer req \<and>
        (\<exists>t' d' i' a'. header_token req = Some t' \<and> verify t' = Inr d'
           \<and> payload_id d' = Some i' \<and> i' \<noteq> []
           \<and> findById db (Some i') = Inr (Some a') \<and> isActive a'
           \<and> r = req\<lparr>req_admin := Some (a'\<lparr>password := None\<rparr>)\<rparr>)"
    by (simp add: protect_Next)
  show ?thesis
    apply (intro conjI)
          apply (rule header [THEN conjunct1])
         apply (rule header [THEN conjunct2])
        apply (use token principal in blast)
       apply (rule answers)
      apply (rule internal)
     apply (rule passes)
    done
qed

theorem protect_case_analysis_witness:
  "has_bearer (bearer_request ''tok3'')
   \<and> header_token (bearer_request ''tok3'') = Some ''tok3''
   \<and> verify_example ''tok3''
       = Inr \<lparr>payload_id = Some ''a3'', payload_iat = 0, payload_exp = Some 604800\<rparr>
   \<and> findById admins (Some ''a3'') = Inr (Some retired_admin)
   \<and> \<not> isActive retired_admin
   \<and> protect verify_example admins (bearer_request ''tok3'')
       = Sent 401 ''Admin account is deactivated''"
proof -
  have h: "has_bearer (bearer_request ''tok3'')"
    by (simp add: has_bearer_def bearer_request_def)
  have t: "header_token (bearer_request ''tok3'') = Some ''tok3''"
    by (simp add: header_token_def bearer_request_def index_def)
  have v: "verify_example ''tok3''
       = Inr \<lparr>payload_id = Some ''a3'', payload_iat = 0, payload_exp = Some 604800\<rparr>"
    by (simp add: verify_example_def)
  have p: "payload_id \<lparr>payload_id = Some ''a3'', payload_iat = 0, payload_exp = Some 604800\<rparr>
       = Some ''a3'' \<and> ''a3'' \<noteq> []"
    by simp
  have f: "findById admins (Some ''a3'') = Inr (Some retired_admin)"
    by (simp add: findById_def admins_def root_admin_def jobs_moderator_def retired_admin_def)
  have i: "\<not> isActive retired_admin"
    by (simp add: retired_admin_def)
  have "protect verify_example admins (bearer_request ''tok3'')
       = Sent 401 ''Admin account is deactivated''"
    using h t v p f i
      protect_case_analysis [where req = "bearer_request ''tok3''" and verify = verify_example
        and db = admins and t = "''tok3''"
        and d = "\<lparr>payload_id = Some ''a3'', payload_iat = 0, payload_exp = Some 604800\<rparr>"
        and i = "''a3''" and a = retired_admin]
    by blast
  with h t v f i show ?thesis by blast
qed

text \<open>
  The claim as stated fails when the store does not answer: the request carries a
  Bearer token, the token verifies, the principal \<open>a1\<close> of its id is stored and
  active, so none of the four conditions of a 401 holds; yet the handler does not run,
  and the answer is 500.
\<close>

theorem protect_store_failure_counterexample:
  "has_bearer (bearer_request ''tok1'')
   \<and> header_token (bearer_request ''tok1'') = Some ''tok1''
   \<and> verify_example ''tok1''
       = Inr \<lparr>payload_id = Some ''a1'', payload_iat = 0, payload_exp = Some 604800\<rparr>
   \<and> find (\<lambda>a. admin_id a = ''a1'') (documents (admins\<lparr>reachable := False\<rparr>)) = Some root_admin
   \<and> isActive root_admin
   \<and> protect verify_example (admins\<lparr>reachable := False\<rparr>) (bearer_request ''tok1'')
       = Sent 500 ''Authentication failed''"
proof -
  have h: "has_bearer (bearer_request ''tok1'')"
    by (simp add: has_bearer_def bearer_request_def)
  have t: "header_token (bearer_request ''tok1'') = Some ''tok1''"
    by (simp add: header_token_def bearer_request_def index_def)
  have v: "verify_example ''tok1''
       = Inr \<lparr>payload_id = Some ''a1'', payload_iat = 0, payload_exp = Some 604800\<rparr>"
    by (simp add: verify_example_def)
  have f: "find (\<lambda>a. admin_id a = ''a1'') (documents (admins\<lparr>reachable := False\<rparr>)) = Some root_admin"
    by (simp add: admins_def root_admin_def)
  have a: "isActive root_admin"
    by (simp add: root_admin_def)
  have r: "protect verify_example (admins\<lparr>reachable := False\<rparr>) (bearer_request ''tok1'')
       = Sent 500 ''Authentication failed''"
    using h t v
    by (simp add: protect_def protect_catch_def findById_def select_minus_password_def admins_def)
  from h t v f a r show ?thesis by blast
qed

text \<open>
  Claim C9. \<open>optionalAuth\<close> never answers the request itself: whatever the header,
  the verifier and the store do, it calls \<open>next\<close>. It attaches a principal (loaded
  without its password) exactly when the header carries a token that verifies and whose
  id resolves to an existing admin with \<open>isActive = True\<close>; in every other case the
  request goes on unchanged.
\<close>

theorem optionalAuth_never_rejects:
  "(\<exists>r. optionalAuth verify db req = Next r)
   \<and> (\<forall>a. has_bearer req
           \<and> (\<exists>t d. header_token req = Some t \<and> verify t = Inr d
                  \<and> findById db (payload_id d) = Inr (Some a) \<and> isActive a)
        \<longrightarrow> optionalAuth verify db req = Next (req\<lparr>req_admin := Some (a\<lparr>password := None\<rparr>)\<rparr>))
   \<and> (\<not> (has_bearer req
           \<and> (\<exists>t d a. header_token req = Some t \<and> verify t = Inr d
                  \<and> findById db (payload_id d) = Inr (Some a) \<and> isActive a))
        \<longrightarrow> optionalAuth verify db req = Next req)"
  by (auto simp: optionalAuth_def select_minus_password_def
           split: option.splits sum.splits)

theorem optionalAuth_never_rejects_witness:
  "optionalAuth verify_example admins (bearer_request ''tok1'')
     = Next ((bearer_request ''tok1'')\<lparr>req_admin := Some (root_admin\<lparr>password := None\<rparr>)\<rparr>)
   \<and> optionalAuth verify_example admins (bearer_request ''tok3'') = Next (bearer_request ''tok3'')
   \<and> optionalAuth verify_example admins (bearer_request ''old'') = Next (bearer_request ''old'')
   \<and> optionalAuth verify_example admins \<lparr>authorization = None, req_admin = None\<rparr>
     = Next \<lparr>authorization = None, req_admin = None\<rparr>"
proof -
  have h: "has_bearer (bearer_request ''tok1'')"
    by (simp add: has_bearer_def bearer_request_def)
  have t: "header_token (bearer_request ''tok1'') = Some ''tok1''"
    by (simp add: header_token_def bearer_request_def index_def)
  have f: "findById admins (Some ''a1'') = Inr (Some root_admin)"
    by (simp add: findById_def admins_def root_admin_def)
  have a: "isActive root_admin"
    by (simp add: root_admin_def)
  have 1: "optionalAuth verify_example admins (bearer_request ''tok1'')
     = Next ((bearer_request ''tok1'')\<lparr>req_admin := Some (root_admin\<lparr>password := None\<rparr>)\<rparr>)"
    using optionalAuth_never_rejects [of verify_example admins "bearer_request ''tok1''"] h t f a
    by (auto simp: verify_example_def)
  have 2: "optionalAuth verify_example admins (bearer_request ''tok3'') = Next (bearer_request ''tok3'')"
    by (simp add: optionalAuth_def has_bearer_def header_token_def bearer_request_def index_def
          verify_example_def findById_def admins_def select_minus_password_def
          root_admin_def jobs_moderator_def retired_admin_def)
  have 3: "optionalAuth verify_example admins (bearer_request ''old'') = Next (bearer_request ''old'')"
    by (simp add: optionalAuth_def has_bearer_def header_token_def bearer_request_def index_def
          verify_example_def)
  have 4: "optionalAuth verify_example admins \<lparr>authorization = None, req_admin = None\<rparr>
     = Next \<lparr>authorization = None, req_admin = None\<rparr>"
    by (simp add: optionalAuth_def has_bearer_def)
  from 1 2 3 4 show ?thesis by simp
qed

section \<open>Token issuer and verifier\<close>

text \<open>
  Claim C4. For every principal id, verifying the token that \<open>generateToken\<close> issues
  for it, under the configured secret, returns claims carrying that same id at any time
  before the configured lifetime has elapsed since issuance, and fails with
  \<open>TokenExpiredError\<close> at any time after it has elapsed.
\<close>

theorem verify_generateToken:
  "(now < issued + JWT_EXPIRE cfg \<longrightarrow>
      (\<exists>claims. jwt_verify (generateToken cfg issued i) (JWT_SECRET cfg) now = Inr claims
         \<and> payload_id claims = Some i))
   \<and> (issued + JWT_EXPIRE cfg < now \<longrightarrow>
      jwt_verify (generateToken cfg issued i) (JWT_SECRET cfg) now
        = Inl (Thrown ''TokenExpiredError''))"
  by (simp add: jwt_verify_def generateToken_def jwt_sign_def)

theorem verify_generateToken_witness:
  "(1000::nat) + 604799 < 1000 + JWT_EXPIRE default_config
   \<and> (\<exists>claims. jwt_verify (generateToken default_config 1000 ''a1'')
                  (JWT_SECRET default_config) (1000 + 604799) = Inr claims
         \<and> payload_id claims = Some ''a1'')
   \<and> 1000 + JWT_EXPIRE default_config < (1000::nat) + 604801
   \<and> jwt_verify (generateToken default_config 1000 ''a1'')
        (JWT_SECRET default_config) (1000 + 604801) = Inl (Thrown ''TokenExpiredError'')"
proof -
  have before: "(1000::nat) + 604799 < 1000 + JWT_EXPIRE default_config"
    by (simp add: default_config_def)
  have after: "1000 + JWT_EXPIRE default_config < (1000::nat) + 604801"
    by (simp add: default_config_def)
  from before after
    verify_generateToken [of "1000 + 604799" 1000 default_config "''a1''"]
    verify_generateToken [of "1000 + 604801" 1000 default_config "''a1''"]
  show ?thesis by blast
qed


section \<open>Login\<close>

lemma find_unique_key:
  "distinct (map f xs) \<Longrightarrow> a \<in> set xs \<Longrightarrow> find (\<lambda>x. f x = f a) xs = Some a"
proof (induction xs)
  case Nil
  then show ?case by simp
next
  case (Cons x xs)
  show ?case
  proof (cases "x = a")
    case True
    then show ?thesis by simp
  next
    case False
    with Cons.prems have mem: "a \<in> set xs" by simp
    from Cons.prems have "f x \<notin> f ` set xs" by simp
    with mem have "f x \<noteq> f a" by blast
    moreover from Cons.prems have "distinct (map f xs)" by simp
    ultimately show ?thesis using Cons.IH mem by simp
  qed
qed

lemma find_member: "find P xs = Some a \<Longrightarrow> a \<in> set xs \<and> P a"
  by (induction xs) (auto split: if_splits)

lemma schema_valid_lastLogin: "schema_valid (a\<lparr>lastLogin := t\<rparr>) = schema_valid a"
  by (simp add: schema_valid_def)

lemma save_lastLogin:
  assumes wf: "well_formed db" and up: "reachable db" and mem: "a \<in> set (documents db)"
  shows "save db (a\<lparr>lastLogin := t\<rparr>)
           = Inr (a\<lparr>lastLogin := t\<rparr>,
                  db\<lparr>documents := map (\<lambda>x. if admin_id x = admin_id a then a\<lparr>lastLogin := t\<rparr> else x)
                                    (documents db)\<rparr>)"
proof -
  from wf mem have st: "stored_by_schema a"
    by (simp add: well_formed_def list_all_iff)
  have same: "a\<lparr>lastLogin := t, firstName := trim (firstName a), lastName := trim (lastName a),
                email := toLowerCase (trim (email a))\<rparr> = a\<lparr>lastLogin := t\<rparr>"
    using st by (simp add: stored_by_schema_def)
  have uniq: "\<not> (\<exists>x \<in> set (documents db). admin_id x \<noteq> admin_id a \<and> email x = email a)"
  proof
    assume "\<exists>x \<in> set (documents db). admin_id x \<noteq> admin_id a \<and> email x = email a"
    then obtain x where x: "x \<in> set (documents db)" "admin_id x \<noteq> admin_id a" "email x = email a"
      by blast
    from wf have "inj_on email (set (documents db))"
      by (simp add: well_formed_def distinct_map)
    with x(1,3) mem have "x = a" by (simp add: inj_on_def)
    with x(2) show False by simp
  qed
  from st have ok: "schema_valid (a\<lparr>lastLogin := t\<rparr>)"
    by (simp add: stored_by_schema_def schema_valid_lastLogin)
  show ?thesis
    using up uniq ok same
    by (simp add: save_def Let_def)
qed

text \<open>
  Claim C3, as amended. On a collection whose documents were stored through the schema
  (so that e-mails are normalised and unique), for every body: a body that fails the
  validators of the route (not an e-mail address, or a password under six characters)
  is answered 400 \<open>Validation errors\<close>; otherwise, when the store does not answer,
  the answer is 500 \<open>Server error\<close>; otherwise login succeeds if and only if a
  principal with the normalised (trimmed, lower-cased) e-mail exists, is active, and its
  stored hash matches the password. An unknown e-mail and a wrong password get the same
  answer, 401 \<open>Invalid credentials\<close>; a deactivated principal gets
  401 \<open>Admin account is deactivated\<close>, before the password is looked at.
\<close>

theorem login_outcomes:
  assumes wf: "well_formed db"
  shows "(\<not> (isEmail (body_email b) \<and> 6 \<le> length (body_password b)) \<longrightarrow>
            login isEmail cmp cfg now db b = (LoginRejected 400 ''Validation errors'', db))
       \<and> (isEmail (body_email b) \<and> 6 \<le> length (body_password b) \<and> \<not> reachable db \<longrightarrow>
            login isEmail cmp cfg now db b = (LoginRejected 500 ''Server error'', db))
       \<and> (isEmail (body_email b) \<and> 6 \<le> length (body_password b) \<and> reachable db \<longrightarrow>
           ((\<exists>tok v. fst (login isEmail cmp cfg now db b) = LoginSuccessful tok v) \<longleftrightarrow>
              (\<exists>a \<in> set (documents db). \<exists>h.
                  email a = toLowerCase (trim (body_email b)) \<and> isActive a
                  \<and> password a = Some h \<and> cmp (body_password b) h))
         \<and> ((\<forall>a \<in> set (documents db). email a \<noteq> toLowerCase (trim (body_email b))) \<longrightarrow>
              fst (login isEmail cmp cfg now db b) = LoginRejected 401 ''Invalid credentials'')
         \<and> (\<forall>a \<in> set (documents db). \<forall>h.
              email a = toLowerCase (trim (body_email b)) \<and> isActive a
              \<and> password a = Some h \<and> \<not> cmp (body_password b) h \<longrightarrow>
              fst (login isEmail cmp cfg now db b) = LoginRejected 401 ''Invalid credentials'')
         \<and> (\<forall>a \<in> set (documents db).
              email a = toLowerCase (trim (body_email b)) \<and> \<not> isActive a \<longrightarrow>
              fst (login isEmail cmp cfg now db b)
                = LoginRejected 401 ''Admin account is deactivated''))"
proof -
  let ?e = "toLowerCase (trim (body_email b))"
  let ?r = "fst (login isEmail cmp cfg now db b)"
  have rejected: "login isEmail cmp cfg now db b = (LoginRejected 400 ''Validation errors'', db)"
    if "\<not> (isEmail (body_email b) \<and> 6 \<le> length (body_password b))"
    using that by (auto simp: login_def)
  have down: "login isEmail cmp cfg now db b = (LoginRejected 500 ''Server error'', db)"
    if "isEmail (body_email b)" "6 \<le> length (body_password b)" "\<not> reachable db"
    using that by (simp add: login_def findOne_email_def)
  have served:
    "((\<exists>tok v. ?r = LoginSuccessful tok v) \<longleftrightarrow>
        (\<exists>a \<in> set (documents db). \<exists>h.
            email a = ?e \<and> isActive a \<and> password a = Some h \<and> cmp (body_password b) h))
     \<and> ((\<forall>a \<in> set (documents db). email a \<noteq> ?e) \<longrightarrow>
          ?r = LoginRejected 401 ''Invalid credentials'')
     \<and> (\<forall>a \<in> set (documents db). \<forall>h.
          email a = ?e \<and> isActive a \<and> password a = Some h \<and> \<not> cmp (body_password b) h \<longrightarrow>
          ?r = LoginRejected 401 ''Invalid credentials'')
     \<and> (\<forall>a \<in> set (documents db). email a = ?e \<and> \<not> isActive a \<longrightarrow>
          ?r = LoginRejected 401 ''Admin account is deactivated'')"
    if valid: "isEmail (body_email b)" "6 \<le> length (body_password b)" and up: "reachable db"
  proof -
    have lookup: "findOne_email db (body_email b) = Inr (find (\<lambda>a. email a = ?e) (documents db))"
      using up by (simp add: findOne_email_def)
    have found: "find (\<lambda>x. email x = ?e) (documents db) = Some a"
      if "a \<in> set (documents db)" "email a = ?e" for a
    proof -
      from wf have "distinct (map email (documents db))" by (simp add: well_formed_def)
      from find_unique_key [OF this that(1)] that(2) show ?thesis by simp
    qed
    have absent: "?r = LoginRejected 401 ''Invalid credentials''"
      if "\<forall>a \<in> set (documents db). email a \<noteq> ?e"
    proof -
      from that have "find (\<lambda>a. email a = ?e) (documents db) = None"
        by (simp add: find_None_iff)
      with valid lookup show ?thesis by (simp add: login_def)
    qed
    have inactive: "?r = LoginRejected 401 ''Admin account is deactivated''"
      if "a \<in> set (documents db)" "email a = ?e" "\<not> isActive a" for a
      using found [OF that(1,2)] that(3) valid lookup by (simp add: login_def)
    have mismatch: "?r = LoginRejected 401 ''Invalid credentials''"
      if "a \<in> set (documents db)" "email a = ?e" "isActive a" "password a = Some h"
         "\<not> cmp (body_password b) h" for a h
      using found [OF that(1,2)] that(3,4,5) valid lookup
      by (simp add: login_def comparePassword_def)
    have match: "\<exists>tok v. ?r = LoginSuccessful tok v"
      if "a \<in> set (documents db)" "email a = ?e" "isActive a" "password a = Some h"
         "cmp (body_password b) h" for a h
      using found [OF that(1,2)] that(3,4,5) valid lookup save_lastLogin [OF wf up that(1)]
      by (simp add: login_def comparePassword_def)
    have only: "\<exists>a \<in> set (documents db). \<exists>h. email a = ?e \<and> isActive a
                  \<and> password a = Some h \<and> cmp (body_password b) h"
      if ok: "?r = LoginSuccessful tok v" for tok v
    proof (cases "find (\<lambda>a. email a = ?e) (documents db)")
      case None
      with valid lookup ok show ?thesis by (simp add: login_def)
    next
      case (Some a)
      from find_member [OF Some] have mem: "a \<in> set (documents db)" "email a = ?e" by simp_all
      from Some valid lookup ok have act: "isActive a"
        by (simp add: login_def split: if_splits)
      from wf mem(1) have "schema_valid a"
        by (simp add: well_formed_def list_all_iff stored_by_schema_def)
      then have "password a \<noteq> None"
        by (auto simp: schema_valid_def split: option.splits)
      then obtain h where h: "password a = Some h" by blast
      have "cmp (body_password b) h"
      proof (rule ccontr)
        assume "\<not> cmp (body_password b) h"
        from mismatch [OF mem act h this] ok show False by simp
      qed
      with mem act h show ?thesis by blast
    qed
    show ?thesis
      using absent inactive mismatch match only by blast
  qed
  from rejected down served show ?thesis by blast
qed

lemma admins_well_formed: "well_formed admins"
  by (simp add: well_formed_def admins_def stored_by_schema_def schema_valid_def role_enum_def
        permission_enum_def trim_def is_space_def toLowerCase_def root_admin_def
        jobs_moderator_def retired_admin_def)

theorem login_outcomes_witness:
  "isEmail_example ''Admin@JobPortal.com''
   \<and> 6 \<le> length ''admin123456''
   \<and> reachable admins \<and> well_formed admins
   \<and> root_admin \<in> set (documents admins)
   \<and> email root_admin = toLowerCase (trim ''Admin@JobPortal.com'')
   \<and> isActive root_admin
   \<and> password root_admin = Some ''$2a$12$hashA''
   \<and> compare_example ''admin123456'' ''$2a$12$hashA''
   \<and> (\<exists>tok v. fst (login isEmail_example compare_example default_config 2000 admins
                     \<lparr>body_email = ''Admin@JobPortal.com'', body_password = ''admin123456''\<rparr>)
                = LoginSuccessful tok v)"
proof -
  let ?b = "\<lparr>body_email = ''Admin@JobPortal.com'', body_password = ''admin123456''\<rparr>"
  have v1: "isEmail_example (body_email ?b)" by (simp add: isEmail_example_def)
  have v2: "6 \<le> length (body_password ?b)" by simp
  have up: "reachable admins" by (simp add: admins_def)
  have mem: "root_admin \<in> set (documents admins)" by (simp add: admins_def)
  have em: "email root_admin = toLowerCase (trim ''Admin@JobPortal.com'')"
    by (simp add: root_admin_def trim_def is_space_def toLowerCase_def)
  have act: "isActive root_admin" by (simp add: root_admin_def)
  have pw: "password root_admin = Some ''$2a$12$hashA''" by (simp add: root_admin_def)
  have cmp: "compare_example ''admin123456'' ''$2a$12$hashA''" by (simp add: compare_example_def)
  have "\<exists>a \<in> set (documents admins). \<exists>h.
          email a = toLowerCase (trim (body_email ?b)) \<and> isActive a
          \<and> password a = Some h \<and> compare_example (body_password ?b) h"
    using mem em act pw cmp by auto
  with v1 v2 up
    login_outcomes [where isEmail = isEmail_example and b = ?b and db = admins
      and cmp = compare_example and cfg = default_config and now = 2000,
      OF admins_well_formed]
  have "\<exists>tok v. fst (login isEmail_example compare_example default_config 2000 admins ?b)
                = LoginSuccessful tok v"
    by blast
  with v1 v2 up admins_well_formed mem em act pw cmp show ?thesis by simp
qed

text \<open>
  The claim as stated fails: the answer to a failed login depends on which predicate
  failed. With the right password, the deactivated principal is told
  \<open>Admin account is deactivated\<close>, an unknown e-mail is told
  \<open>Invalid credentials\<close>, and a password under six characters is answered 400
  by the validators.
\<close>

theorem login_not_uniform_counterexample:
  "fst (login isEmail_example compare_example default_config 2000 admins
          \<lparr>body_email = ''former@jobportal.com'', body_password = ''formerpw''\<rparr>)
     = LoginRejected 401 ''Admin account is deactivated''
   \<and> fst (login isEmail_example compare_example default_config 2000 admins
          \<lparr>body_email = ''nobody@jobportal.com'', body_password = ''formerpw''\<rparr>)
     = LoginRejected 401 ''Invalid credentials''
   \<and> fst (login isEmail_example compare_example default_config 2000 admins
          \<lparr>body_email = ''admin@jobportal.com'', body_password = ''admin''\<rparr>)
     = LoginRejected 400 ''Validation errors''"
proof -
  have 1: "fst (login isEmail_example compare_example default_config 2000 admins
          \<lparr>body_email = ''former@jobportal.com'', body_password = ''formerpw''\<rparr>)
     = LoginRejected 401 ''Admin account is deactivated''"
    by (simp add: login_def isEmail_example_def findOne_email_def admins_def trim_def
          is_space_def toLowerCase_def root_admin_def jobs_moderator_def retired_admin_def)
  have 2: "fst (login isEmail_example compare_example default_config 2000 admins
          \<lparr>body_email = ''nobody@jobportal.com'', body_password = ''formerpw''\<rparr>)
     = LoginRejected 401 ''Invalid credentials''"
    by (simp add: login_def isEmail_example_def findOne_email_def admins_def trim_def
          is_space_def toLowerCase_def root_admin_def jobs_moderator_def retired_admin_def)
  have 3: "fst (login isEmail_example compare_example default_config 2000 admins
          \<lparr>body_email = ''admin@jobportal.com'', body_password = ''admin''\<rparr>)
     = LoginRejected 400 ''Validation errors''"
    by (simp add: login_def isEmail_example_def)
  from 1 2 3 show ?thesis by simp
qed

section \<open>The password hash in responses\<close>

lemma protect_attaches_no_password:
  assumes "protect verify db req = Next r"
  shows "\<exists>a. req_admin r = Some a \<and> password a = None"
  using assms by (auto simp: protect_Next)

lemma find_map_password:
  "find (\<lambda>a. email a = e) (map (\<lambda>a. a\<lparr>password := hash a\<rparr>) xs)
     = map_option (\<lambda>a. a\<lparr>password := hash a\<rparr>) (find (\<lambda>a. email a = e) xs)"
  by (induction xs) simp_all

lemma login_body_independent_of_hash:
  assumes "login isEmail cmp cfg now db b = (LoginSuccessful tok v, db')"
    and "login isEmail cmp' cfg now (db\<lparr>documents := map (\<lambda>a. a\<lparr>password := hash a\<rparr>) (documents db)\<rparr>) b
           = (LoginSuccessful tok' v', db'')"
  shows "tok' = tok \<and> v' = v"
proof -
  let ?e = "toLowerCase (trim (body_email b))"
  let ?docs' = "map (\<lambda>a. a\<lparr>password := hash a\<rparr>) (documents db)"
  have find': "find (\<lambda>a. email a = ?e) ?docs'
                 = map_option (\<lambda>a. a\<lparr>password := hash a\<rparr>) (find (\<lambda>a. email a = ?e) (documents db))"
    by (rule find_map_password)
  from assms(1) obtain a where a: "find (\<lambda>a. email a = ?e) (documents db) = Some a"
    and up: "reachable db"
    by (auto simp: login_def findOne_email_def split: if_splits option.splits)
  from assms(1) a up obtain s where
    s: "save db (a\<lparr>lastLogin := Some now\<rparr>) = Inr (s, db')"
    and tok: "tok = generateToken cfg now (admin_id s)"
    and v: "v = \<lparr> view_id = admin_id s, view_firstName = firstName s,
                   view_lastName = lastName s, view_email = email s, view_role = role s,
                   view_permissions = permissions s, view_profileImage = profileImage s,
                   view_fullName = fullName s \<rparr>"
    by (auto simp: login_def findOne_email_def split: if_splits sum.splits)
  from assms(2) a up find' obtain s' where
    s': "save (db\<lparr>documents := ?docs'\<rparr>) (a\<lparr>password := hash a, lastLogin := Some now\<rparr>)
           = Inr (s', db'')"
    and tok': "tok' = generateToken cfg now (admin_id s')"
    and v': "v' = \<lparr> view_id = admin_id s', view_firstName = firstName s',
                   view_lastName = lastName s', view_email = email s', view_role = role s',
                   view_permissions = permissions s', view_profileImage = profileImage s',
                   view_fullName = fullName s' \<rparr>"
    by (auto simp: login_def findOne_email_def split: if_splits sum.splits)
  from s s' have "s' = s\<lparr>password := hash a\<rparr>"
    by (auto simp: save_def Let_def split: if_splits)
  with tok tok' v v' show ?thesis
    by (simp add: fullName_def)
qed

text \<open>
  Claim C10. \<open>protect\<close> attaches the principal without its password, and the body
  of a successful login is built from a field list without it. The handler of
  \<open>PUT /profile\<close> in the same router is different: it reloads the document
  without a projection and answers with the saved document, stored hash included.
  Below, the principal \<open>a1\<close> passes \<open>protect\<close> with no password attached, changes
  its first name, and the response data carries the hash.
\<close>

theorem update_profile_returns_password_hash:
  "protect verify_example admins (bearer_request ''tok1'')
     = Next \<lparr>authorization = Some ''Bearer tok1'',
             req_admin = Some (root_admin\<lparr>password := None\<rparr>)\<rparr>
   \<and> fst (update_profile isEmail_example isMobilePhone_example admins
            \<lparr>authorization = Some ''Bearer tok1'',
             req_admin = Some (root_admin\<lparr>password := None\<rparr>)\<rparr>
            \<lparr>new_firstName = Some ''Root'', new_lastName = None, new_email = None,
             new_phone = None, new_department = None, new_profileImage = None\<rparr>)
     = ProfileUpdated (root_admin\<lparr>firstName := ''Root''\<rparr>)
   \<and> password (root_admin\<lparr>firstName := ''Root''\<rparr>) = Some ''$2a$12$hashA''"
proof -
  have 1: "protect verify_example admins (bearer_request ''tok1'')
     = Next \<lparr>authorization = Some ''Bearer tok1'',
             req_admin = Some (root_admin\<lparr>password := None\<rparr>)\<rparr>"
    by (simp add: protect_def has_bearer_def header_token_def bearer_request_def index_def
          verify_example_def findById_def admins_def select_minus_password_def root_admin_def)
  have 2: "fst (update_profile isEmail_example isMobilePhone_example admins
            \<lparr>authorization = Some ''Bearer tok1'',
             req_admin = Some (root_admin\<lparr>password := None\<rparr>)\<rparr>
            \<lparr>new_firstName = Some ''Root'', new_lastName = None, new_email = None,
             new_phone = None, new_department = None, new_profileImage = None\<rparr>)
     = ProfileUpdated (root_admin\<lparr>firstName := ''Root''\<rparr>)"
    by (simp add: update_profile_def optional_def isLength_def findById_def admins_def
          save_def Let_def truthy_or_def truthy_or_opt_def trim_def is_space_def toLowerCase_def
          schema_valid_def role_enum_def permission_enum_def
          root_admin_def jobs_moderator_def retired_admin_def)
  have 3: "password (root_admin\<lparr>firstName := ''Root''\<rparr>) = Some ''$2a$12$hashA''"
    by (simp add: root_admin_def)
  from 1 2 3 show ?thesis by simp
qed


section \<open>Category list: pagination\<close>










section \<open>Category bulk update: the allow-list\<close>








section \<open>Applying twice for the same job\<close>

lemma find_Some_if_exists: "\<exists>x \<in> set xs. P x \<Longrightarrow> \<exists>y. find P xs = Some y"
  by (cases "find P xs") (auto simp: find_None_iff)

lemma create_application_distinct:
  assumes "distinct (map index_key apps)" and "create_application apps a = Inr apps'"
  shows "distinct (map index_key apps')"
proof -
  from assms(2) have new: "\<not> (\<exists>x \<in> set apps. app_job x = app_job a \<and> app_applicant x = app_applicant a)"
    and eq: "apps' = apps @ [a]"
    by (auto simp: create_application_def split: if_splits)
  from new have "index_key a \<notin> index_key ` set apps"
    by (auto simp: index_key_def)
  with assms(1) eq show ?thesis by simp
qed

lemma apply_for_job_store:
  "fst (snd (apply_for_job isMongoId now new_id user jobs apps_at_check apps_at_create body))
     = apps_at_create
   \<or> (\<exists>a. create_application apps_at_create a
            = Inr (fst (snd (apply_for_job isMongoId now new_id user jobs apps_at_check
                               apps_at_create body))))"
proof (cases "find (\<lambda>j. job_id j = body_job body) jobs")
  case None
  then show ?thesis by (simp add: apply_for_job_def)
next
  case (Some job)
  show ?thesis
  proof (cases "find (\<lambda>a. app_job a = body_job body \<and> app_applicant a = user) apps_at_check")
    case (Some existing)
    with \<open>find (\<lambda>j. job_id j = body_job body) jobs = Some job\<close> show ?thesis
      by (simp add: apply_for_job_def)
  next
    case None
    let ?a = "\<lparr> app_id = new_id, app_job = body_job body, app_applicant = user,
                 app_company = job_company job,
                 coverLetter = body_coverLetter body, resume = body_resume body,
                 expectedSalary = body_expectedSalary body,
                 availability = body_availability body \<rparr>"
    show ?thesis
    proof (cases "create_application apps_at_create ?a")
      case (Inl e)
      with None \<open>find (\<lambda>j. job_id j = body_job body) jobs = Some job\<close> show ?thesis
        by (simp add: apply_for_job_def Let_def)
    next
      case (Inr apps')
      with None \<open>find (\<lambda>j. job_id j = body_job body) jobs = Some job\<close>
      have "fst (snd (apply_for_job isMongoId now new_id user jobs apps_at_check
                               apps_at_create body)) = apps_at_create
          \<or> fst (snd (apply_for_job isMongoId now new_id user jobs apps_at_check
                               apps_at_create body)) = apps'"
        by (simp add: apply_for_job_def Let_def)
      with Inr show ?thesis by metis
    qed
  qed
qed

text \<open>
  Claim C6, as amended. Under the unique index on (job, applicant), the handler never
  leaves two Application documents with the same pair. For a valid body on an active job
  before its deadline: when the pre-check finds an Application with the same pair, the
  answer is 400 \<open>You have already applied for this job\<close> and nothing is created;
  when the pre-check finds none but the store holds one by the time of the insert (a
  concurrent duplicate), the duplicate-key error of the store is not translated: the
  answer is the generic 500 \<open>Server error\<close>, and still nothing is created.
\<close>

theorem apply_for_job_duplicate:
  assumes uniq: "distinct (map index_key apps_at_create)"
  shows "distinct (map index_key
           (fst (snd (apply_for_job isMongoId now new_id user jobs apps_at_check
                        apps_at_create body))))
       \<and> (apply_validators isMongoId body
           \<and> find (\<lambda>j. job_id j = body_job body) jobs = Some j
           \<and> job_isActive j \<and> now \<le> applicationDeadline j \<longrightarrow>
            ((\<exists>x \<in> set apps_at_check. index_key x = (body_job body, user)) \<longrightarrow>
               apply_for_job isMongoId now new_id user jobs apps_at_check apps_at_create body
                 = (ApplyRejected 400 ''You have already applied for this job'',
                    apps_at_create, jobs))
          \<and> ((\<forall>x \<in> set apps_at_check. index_key x \<noteq> (body_job body, user))
              \<and> (\<exists>x \<in> set apps_at_create. index_key x = (body_job body, user)) \<longrightarrow>
               apply_for_job isMongoId now new_id user jobs apps_at_check apps_at_create body
                 = (ApplyRejected 500 ''Server error'', apps_at_create, jobs)))"
proof -
  let ?run = "apply_for_job isMongoId now new_id user jobs apps_at_check apps_at_create body"
  let ?mine = "\<lambda>a. app_job a = body_job body \<and> app_applicant a = user"
  have store: "distinct (map index_key (fst (snd ?run)))"
  proof -
    from apply_for_job_store [of isMongoId now new_id user jobs apps_at_check apps_at_create body]
    consider (same) "fst (snd ?run) = apps_at_create"
      | (created) a where "create_application apps_at_create a = Inr (fst (snd ?run))"
      by blast
    then show ?thesis
    proof cases
      case same
      with uniq show ?thesis by simp
    next
      case created
      from create_application_distinct [OF uniq created] show ?thesis .
    qed
  qed
  have seen: "?run = (ApplyRejected 400 ''You have already applied for this job'',
                      apps_at_create, jobs)"
    if ok: "apply_validators isMongoId body" "find (\<lambda>j. job_id j = body_job body) jobs = Some j"
           "job_isActive j" "now \<le> applicationDeadline j"
       and dup: "\<exists>x \<in> set apps_at_check. index_key x = (body_job body, user)"
  proof -
    from dup have "\<exists>x \<in> set apps_at_check. ?mine x"
      by (auto simp: index_key_def)
    then have "\<exists>y. find ?mine apps_at_check = Some y"
      by (rule find_Some_if_exists)
    then obtain y where "find ?mine apps_at_check = Some y" ..
    with ok show ?thesis by (simp add: apply_for_job_def)
  qed
  have raced: "?run = (ApplyRejected 500 ''Server error'', apps_at_create, jobs)"
    if ok: "apply_validators isMongoId body" "find (\<lambda>j. job_id j = body_job body) jobs = Some j"
           "job_isActive j" "now \<le> applicationDeadline j"
       and unseen: "\<forall>x \<in> set apps_at_check. index_key x \<noteq> (body_job body, user)"
       and dup: "\<exists>x \<in> set apps_at_create. index_key x = (body_job body, user)"
  proof -
    from unseen have "find ?mine apps_at_check = None"
      by (auto simp: find_None_iff index_key_def)
    moreover from dup have "\<exists>x \<in> set apps_at_create. ?mine x"
      by (auto simp: index_key_def)
    ultimately show ?thesis
      using ok by (simp add: apply_for_job_def Let_def create_application_def)
  qed
  show ?thesis
  proof (intro conjI impI)
    show "distinct (map index_key (fst (snd ?run)))" by (rule store)
  next
    assume "apply_validators isMongoId body
           \<and> find (\<lambda>j. job_id j = body_job body) jobs = Some j
           \<and> job_isActive j \<and> now \<le> applicationDeadline j"
      and "\<exists>x \<in> set apps_at_check. index_key x = (body_job body, user)"
    then show "?run = (ApplyRejected 400 ''You have already applied for this job'',
                      apps_at_create, jobs)"
      using seen by blast
  next
    assume "apply_validators isMongoId body
           \<and> find (\<lambda>j. job_id j = body_job body) jobs = Some j
           \<and> job_isActive j \<and> now \<le> applicationDeadline j"
      and "(\<forall>x \<in> set apps_at_check. index_key x \<noteq> (body_job body, user))
              \<and> (\<exists>x \<in> set apps_at_create. index_key x = (body_job body, user))"
    then show "?run = (ApplyRejected 500 ''Server error'', apps_at_create, jobs)"
      using raced by blast
  qed
qed

theorem apply_for_job_duplicate_witness:
  "distinct (map index_key [first_application])
   \<and> apply_validators isMongoId_example application_body
   \<and> find (\<lambda>j. job_id j = body_job application_body) [open_job] = Some open_job
   \<and> job_isActive open_job \<and> (2000::nat) \<le> applicationDeadline open_job
   \<and> index_key first_application = (body_job application_body, ''u1'')
   \<and> apply_for_job isMongoId_example 2000 ''p2'' ''u1'' [open_job]
        [first_application] [first_application] application_body
       = (ApplyRejected 400 ''You have already applied for this job'',
          [first_application], [open_job])"
proof -
  have d: "distinct (map index_key [first_application])" by simp
  have v: "apply_validators isMongoId_example application_body"
    by (simp add: apply_validators_def isMongoId_example_def application_body_def)
  have j: "find (\<lambda>j. job_id j = body_job application_body) [open_job] = Some open_job"
    by (simp add: application_body_def open_job_def)
  have a: "job_isActive open_job" and t: "(2000::nat) \<le> applicationDeadline open_job"
    by (simp_all add: open_job_def)
  have k: "index_key first_application = (body_job application_body, ''u1'')"
    by (simp add: index_key_def first_application_def application_body_def)
  then have seen: "\<exists>x \<in> set [first_application]. index_key x = (body_job application_body, ''u1'')"
    by simp
  from apply_for_job_duplicate [OF d, where isMongoId = isMongoId_example
         and body = application_body and j = open_job and jobs = "[open_job]" and now = 2000
         and user = "''u1''" and apps_at_check = "[first_application]" and new_id = "''p2''"]
       v j a t seen
  have "apply_for_job isMongoId_example 2000 ''p2'' ''u1'' [open_job]
          [first_application] [first_application] application_body
        = (ApplyRejected 400 ''You have already applied for this job'',
           [first_application], [open_job])"
    by blast
  with d v j a t k show ?thesis by blast
qed

text \<open>
  The claim as stated fails when the duplicate is detected only by the unique index:
  the pre-check of the second request reads the collection before the first request
  has inserted (\<open>apps_at_check = []\<close>), the insert then meets the document of the
  first, and the answer is the generic 500.
\<close>

theorem apply_for_job_race_counterexample:
  "apply_for_job isMongoId_example 2000 ''p2'' ''u1'' [open_job]
     [] [first_application] application_body
   = (ApplyRejected 500 ''Server error'', [first_application], [open_job])"
  by (simp add: apply_for_job_def Let_def create_application_def apply_validators_def
        isMongoId_example_def application_body_def open_job_def first_application_def)


section \<open>Dashboard statistics\<close>

lemma promise_all_catch_default:
  "promise_all (map (\<lambda>q. catch_default (f q) d) qs) = Inr (map (\<lambda>q. or_default (f q) d) qs)"
  by (induction qs) (simp_all add: catch_default_def or_default_def split: sum.splits)

lemma await_all_catch_default:
  "await_all (\<lambda>q. catch_default (f q) d) qs t
     = (Inr (map (\<lambda>q. or_default (f q) d) qs), t @ map Dispatch qs @ map Await qs)"
  by (simp add: await_all_def promise_all_catch_default)

lemma dashboard_stats_eval:
  "dashboard_stats db =
     (Stats
        \<lparr> data_overview =
            \<lparr> totalUsers = or_default (count_result db TotalUsers) 0,
              totalJobs = or_default (count_result db TotalJobs) 0,
              totalCompanies = or_default (count_result db TotalCompanies) 0,
              totalApplications = or_default (count_result db TotalApplications) 0,
              totalCategories = or_default (count_result db TotalCategories) 0,
              totalFAQs = or_default (count_result db TotalFAQs) 0,
              totalContent = or_default (count_result db TotalContent) 0 \<rparr>,
          data_active =
            \<lparr> active_users = or_default (count_result db ActiveUsers) 0,
              active_jobs = or_default (count_result db ActiveJobs) 0,
              active_companies = or_default (count_result db ActiveCompanies) 0,
              active_categories = or_default (count_result db ActiveCategories) 0,
              active_faqs = or_default (count_result db ActiveFAQs) 0,
              active_content = or_default (count_result db PublishedContent) 0 \<rparr>,
          data_monthly =
            \<lparr> monthly_users = or_default (count_result db MonthlyUsers) 0,
              monthly_jobs = or_default (count_result db MonthlyJobs) 0,
              monthly_applications = or_default (count_result db MonthlyApplications) 0,
              monthly_companies = or_default (count_result db MonthlyCompanies) 0 \<rparr>,
          data_recent =
            \<lparr> recent_users = or_default (find_result db RecentUsers) [],
              recent_jobs = or_default (find_result db RecentJobs) [],
              recent_applications = or_default (find_result db RecentApplications) [] \<rparr>,
          data_analytics =
            \<lparr> jobCategories = or_default (aggregate_result db JobCategories) [],
              userRoles = or_default (aggregate_result db UserRoles) [],
              applicationStatus = or_default (aggregate_result db ApplicationStatus) [],
              companyIndustries = or_default (aggregate_result db CompanyIndustries) [],
              faqCategories = or_default (aggregate_result db FaqCategories) [],
              contentTypes = or_default (aggregate_result db ContentTypes) [] \<rparr> \<rparr>,
      [Dispatch TotalUsers, Dispatch TotalJobs, Dispatch TotalCompanies,
       Dispatch TotalApplications, Dispatch TotalCategories, Dispatch TotalFAQs,
       Dispatch TotalContent,
       Await TotalUsers, Await TotalJobs, Await TotalCompanies, Await TotalApplications,
       Await TotalCategories, Await TotalFAQs, Await TotalContent,
       Dispatch ActiveUsers, Dispatch ActiveJobs, Dispatch ActiveCompanies,
       Dispatch ActiveCategories, Dispatch ActiveFAQs, Dispatch PublishedContent,
       Await ActiveUsers, Await ActiveJobs, Await ActiveCompanies, Await ActiveCategories,
       Await ActiveFAQs, Await PublishedContent,
       Dispatch RecentUsers, Dispatch RecentJobs, Dispatch RecentApplications,
       Await RecentUsers, Await RecentJobs, Await RecentApplications,
       Dispatch MonthlyUsers, Dispatch MonthlyJobs, Dispatch MonthlyApplications,
       Dispatch MonthlyCompanies,
       Await MonthlyUsers, Await MonthlyJobs, Await MonthlyApplications,
       Await MonthlyCompanies,
       Dispatch JobCategories, Await JobCategories, Dispatch UserRoles, Await UserRoles,
       Dispatch ApplicationStatus, Await ApplicationStatus,
       Dispatch CompanyIndustries, Await CompanyIndustries,
       Dispatch FaqCategories, Await FaqCategories, Dispatch ContentTypes,
       Await ContentTypes])"
  by (simp add: dashboard_stats_def Let_def await_all_catch_default)


text \<open>
  Claim C7, as amended. The report is always returned: whatever queries the database
  rejects, the answer is the statistics object, in which each field is the result of
  its own query, or 0 (a count) or the empty list (recent documents, an aggregation)
  when that query was rejected; the other fields are not affected. The queries run in
  batches: the seven total counts are all dispatched before any of them is awaited, then
  likewise the six active counts, the three queries for recent documents and the four
  counts of the month, each batch after the one before it has been awaited; the six
  aggregations are then dispatched and awaited one at a time.
\<close>

theorem dashboard_stats_degrades:
  "(\<exists>report. fst (dashboard_stats db) = Stats report
      \<and> data_overview report =
            \<lparr> totalUsers = or_default (count_result db TotalUsers) 0,
              totalJobs = or_default (count_result db TotalJobs) 0,
              totalCompanies = or_default (count_result db TotalCompanies) 0,
              totalApplications = or_default (count_result db TotalApplications) 0,
              totalCategories = or_default (count_result db TotalCategories) 0,
              totalFAQs = or_default (count_result db TotalFAQs) 0,
              totalContent = or_default (count_result db TotalContent) 0 \<rparr>
      \<and> data_active report =
            \<lparr> active_users = or_default (count_result db ActiveUsers) 0,
              active_jobs = or_default (count_result db ActiveJobs) 0,
              active_companies = or_default (count_result db ActiveCompanies) 0,
              active_categories = or_default (count_result db ActiveCategories) 0,
              active_faqs = or_default (count_result db ActiveFAQs) 0,
              active_content = or_default (count_result db PublishedContent) 0 \<rparr>
      \<and> data_monthly report =
            \<lparr> monthly_users = or_default (count_result db MonthlyUsers) 0,
              monthly_jobs = or_default (count_result db MonthlyJobs) 0,
              monthly_applications = or_default (count_result db MonthlyApplications) 0,
              monthly_companies = or_default (count_result db MonthlyCompanies) 0 \<rparr>
      \<and> data_recent report =
            \<lparr> recent_users = or_default (find_result db RecentUsers) [],
              recent_jobs = or_default (find_result db RecentJobs) [],
              recent_applications = or_default (find_result db RecentApplications) [] \<rparr>
      \<and> data_analytics report =
            \<lparr> jobCategories = or_default (aggregate_result db JobCategories) [],
              userRoles = or_default (aggregate_result db UserRoles) [],
              applicationStatus = or_default (aggregate_result db ApplicationStatus) [],
              companyIndustries = or_default (aggregate_result db CompanyIndustries) [],
              faqCategories = or_default (aggregate_result db FaqCategories) [],
              contentTypes = or_default (aggregate_result db ContentTypes) [] \<rparr>)
   \<and> snd (dashboard_stats db) =
       map Dispatch [TotalUsers, TotalJobs, TotalCompanies, TotalApplications,
                     TotalCategories, TotalFAQs, TotalContent]
       @ map Await [TotalUsers, TotalJobs, TotalCompanies, TotalApplications,
                    TotalCategories, TotalFAQs, TotalContent]
       @ map Dispatch [ActiveUsers, ActiveJobs, ActiveCompanies, ActiveCategories,
                       ActiveFAQs, PublishedContent]
       @ map Await [ActiveUsers, ActiveJobs, ActiveCompanies, ActiveCategories,
                    ActiveFAQs, PublishedContent]
       @ map Dispatch [RecentUsers, RecentJobs, RecentApplications]
       @ map Await [RecentUsers, RecentJobs, RecentApplications]
       @ map Dispatch [MonthlyUsers, MonthlyJobs, MonthlyApplications, MonthlyCompanies]
       @ map Await [MonthlyUsers, MonthlyJobs, MonthlyApplications, MonthlyCompanies]
       @ concat (map (\<lambda>q. [Dispatch q, Await q])
                  [JobCategories, UserRoles, ApplicationStatus, CompanyIndustries,
                   FaqCategories, ContentTypes])"
  by (simp add: dashboard_stats_eval)

theorem dashboard_stats_degrades_witness:
  "count_result stats_example TotalJobs = Inl (Thrown ''MongoNetworkError'')
   \<and> find_result stats_example RecentJobs = Inl (Thrown ''MongoNetworkError'')
   \<and> (\<exists>report. fst (dashboard_stats stats_example) = Stats report
         \<and> totalJobs (data_overview report) = 0
         \<and> totalUsers (data_overview report) = 3
         \<and> active_jobs (data_active report) = 3
         \<and> recent_jobs (data_recent report) = []
         \<and> recent_users (data_recent report) = [1, 2])"
proof -
  from dashboard_stats_degrades [of stats_example]
  obtain report where r: "fst (dashboard_stats stats_example) = Stats report"
    and o: "data_overview report =
            \<lparr> totalUsers = or_default (count_result stats_example TotalUsers) 0,
              totalJobs = or_default (count_result stats_example TotalJobs) 0,
              totalCompanies = or_default (count_result stats_example TotalCompanies) 0,
              totalApplications = or_default (count_result stats_example TotalApplications) 0,
              totalCategories = or_default (count_result stats_example TotalCategories) 0,
              totalFAQs = or_default (count_result stats_example TotalFAQs) 0,
              totalContent = or_default (count_result stats_example TotalContent) 0 \<rparr>"
    and a: "data_active report =
            \<lparr> active_users = or_default (count_result stats_example ActiveUsers) 0,
              active_jobs = or_default (count_result stats_example ActiveJobs) 0,
              active_companies = or_default (count_result stats_example ActiveCompanies) 0,
              active_categories = or_default (count_result stats_example ActiveCategories) 0,
              active_faqs = or_default (count_result stats_example ActiveFAQs) 0,
              active_content = or_default (count_result stats_example PublishedContent) 0 \<rparr>"
    and c: "data_recent report =
            \<lparr> recent_users = or_default (find_result stats_example RecentUsers) [],
              recent_jobs = or_default (find_result stats_example RecentJobs) [],
              recent_applications = or_default (find_result stats_example RecentApplications) [] \<rparr>"
    by blast
  have 1: "totalJobs (data_overview report) = 0" "totalUsers (data_overview report) = 3"
    unfolding o by (simp_all add: stats_example_def or_default_def)
  have 2: "active_jobs (data_active report) = 3"
    unfolding a by (simp add: stats_example_def or_default_def)
  have 3: "recent_jobs (data_recent report) = []" "recent_users (data_recent report) = [1, 2]"
    unfolding c by (simp_all add: stats_example_def or_default_def)
  have 4: "count_result stats_example TotalJobs = Inl (Thrown ''MongoNetworkError'')"
    "find_result stats_example RecentJobs = Inl (Thrown ''MongoNetworkError'')"
    by (simp_all add: stats_example_def)
  from r 1 2 3 4 show ?thesis by blast
qed

text \<open>
  The claim as stated fails on the order of the queries: the count of all users has
  been awaited (event 7 of the trace) before the count of active users is dispatched
  (event 14).
\<close>

theorem dashboard_stats_batches_counterexample:
  "snd (dashboard_stats stats_example) ! 7 = Await TotalUsers
   \<and> snd (dashboard_stats stats_example) ! 14 = Dispatch ActiveUsers"
  by (simp add: dashboard_stats_eval)


end
